theory Spec2Isabelle
  imports Complex_Main
begin

section \<open>JavaScript values used by the analysis\<close>

text \<open>
  A JavaScript string is a sequence of UTF-16 code units; it is modelled as the list of
  its code units, each the integer that \<open>charCodeAt\<close> returns. Every phrase of the
  dictionaries lies in the Basic Multilingual Plane, so one character of the source is
  one code unit here. Numbers are IEEE doubles in the source and real numbers here; of
  \<open>Math.pow\<close> the properties below use that it is monotone, and a few bounds on its
  values.
\<close>

type_synonym jsstring = "int list"

text \<open>The characters matched by \<open>\s\<close> in a regular expression and stripped by \<open>trim\<close>.\<close>

definition isWhiteSpace :: "int \<Rightarrow> bool" where
  "isWhiteSpace c \<longleftrightarrow>
     c \<in> set [0x0009, 0x000A, 0x000B, 0x000C, 0x000D, 0x0020, 0x00A0, 0x1680, 0x2028, 0x2029,
              0x202F, 0x205F, 0x3000, 0xFEFF]
     \<or> (0x2000 \<le> c \<and> c \<le> 0x200A)"

definition isLineTerminator :: "int \<Rightarrow> bool" where
  "isLineTerminator c \<longleftrightarrow> c \<in> set [0x000A, 0x000D, 0x2028, 0x2029]"

definition trim :: "jsstring \<Rightarrow> jsstring" where
  "trim s = rev (dropWhile isWhiteSpace (rev (dropWhile isWhiteSpace s)))"

fun startsWith :: "jsstring \<Rightarrow> jsstring \<Rightarrow> bool" where
  "startsWith s [] = True"
| "startsWith [] (p # ps) = False"
| "startsWith (c # cs) (p # ps) = (c = p \<and> startsWith cs ps)"

text \<open>\<open>s.indexOf(p)\<close>: the first position where \<open>p\<close> occurs; \<open>None\<close> stands for \<open>-1\<close>.\<close>

fun indexOf :: "jsstring \<Rightarrow> jsstring \<Rightarrow> nat option" where
  "indexOf [] p = (if p = [] then Some 0 else None)"
| "indexOf (c # cs) p =
     (if startsWith (c # cs) p then Some 0 else map_option Suc (indexOf cs p))"

text \<open>\<open>s.includes(p)\<close>.\<close>

definition includesStr :: "jsstring \<Rightarrow> jsstring \<Rightarrow> bool" where
  "includesStr s p \<longleftrightarrow> indexOf s p \<noteq> None"

text \<open>
  Modelled from the spec: \<open>String.prototype.toLowerCase\<close> and \<open>toUpperCase\<close> are built-ins
  of the JavaScript runtime, not code of this repository. The spec describes the step as
  lower-casing Latin letters, so the model folds the letters A to Z and leaves every other
  code unit as it is.
\<close>

definition toLowerCase :: "jsstring \<Rightarrow> jsstring" where
  "toLowerCase s = map (\<lambda>c. if 0x41 \<le> c \<and> c \<le> 0x5A then c + 0x20 else c) s"

definition toUpperCase :: "jsstring \<Rightarrow> jsstring" where
  "toUpperCase s = map (\<lambda>c. if 0x61 \<le> c \<and> c \<le> 0x7A then c - 0x20 else c) s"

text \<open>\<open>Math.round\<close> rounds to the nearest integer, a half upwards; \<open>Math.pow\<close> on a
  base that is not negative is the real power.\<close>

definition Math_round :: "real \<Rightarrow> real" where
  "Math_round x = of_int \<lfloor>x + 1 / 2\<rfloor>"

definition Math_pow :: "real \<Rightarrow> real \<Rightarrow> real" where
  "Math_pow x y = x powr y"

subsection \<open>The regular expressions of the analysis\<close>

text \<open>
  The regular expressions of \<open>analyzeLocal\<close> are alternatives of sequences of character
  classes, one with an optional class and an end-of-line anchor (flag \<open>m\<close>). A literal
  character is a class of one. The source only asks whether they match (\<open>test\<close>) or how
  many matches a global search finds (\<open>match\<close> with flag \<open>g\<close>).
\<close>

datatype atom = Cls "int list" | Opt "int list" | EndOfLine

definition lit :: "jsstring \<Rightarrow> atom list" where
  "lit s = map (\<lambda>c. Cls [c]) s"

text \<open>The length of the match of a sequence at the start of a string, if it matches there.\<close>

fun matchLen :: "atom list \<Rightarrow> jsstring \<Rightarrow> nat option" where
  "matchLen [] s = Some 0"
| "matchLen (Cls k # as) s =
     (case s of [] \<Rightarrow> None
      | c # cs \<Rightarrow> if c \<in> set k then map_option Suc (matchLen as cs) else None)"
| "matchLen (Opt k # as) s =
     (case (case s of [] \<Rightarrow> None
            | c # cs \<Rightarrow> if c \<in> set k then map_option Suc (matchLen as cs) else None) of
        Some n \<Rightarrow> Some n
      | None \<Rightarrow> matchLen as s)"
| "matchLen (EndOfLine # as) s =
     (if (case s of [] \<Rightarrow> True | c # cs \<Rightarrow> isLineTerminator c) then matchLen as s else None)"

text \<open>The first alternative, in the order written, that matches at the start of a string.\<close>

fun matchAlts :: "atom list list \<Rightarrow> jsstring \<Rightarrow> nat option" where
  "matchAlts [] s = None"
| "matchAlts (a # alts) s =
     (case matchLen a s of Some n \<Rightarrow> Some n | None \<Rightarrow> matchAlts alts s)"

text \<open>\<open>re.test(s)\<close>: a match starts at some position of the string, its end included.\<close>

fun regexTest :: "atom list list \<Rightarrow> jsstring \<Rightarrow> bool" where
  "regexTest alts [] = (matchAlts alts [] \<noteq> None)"
| "regexTest alts (c # cs) = (matchAlts alts (c # cs) \<noteq> None \<or> regexTest alts cs)"

text \<open>\<open>(s.match(re) || []).length\<close> for a global \<open>re\<close>: the search resumes behind each
  match, one code unit further after an empty one.\<close>

function countMatches :: "atom list list \<Rightarrow> jsstring \<Rightarrow> nat" where
  "countMatches alts [] = (if matchAlts alts [] \<noteq> None then 1 else 0)"
| "countMatches alts (c # cs) =
     (case matchAlts alts (c # cs) of
        None \<Rightarrow> countMatches alts cs
      | Some n \<Rightarrow> 1 + countMatches alts (drop (n - 1) cs))"
  by pat_completeness auto
termination
  by (relation "measure (\<lambda>(alts, s). length s)") auto

section \<open>The tables of the analysis\<close>

text \<open>\<open>PSY_CATEGORIES\<close>: the identifiers of the psychological categories and their
  \<open>baseSeverity\<close>. The labels and descriptions are display text and are left out.\<close>

datatype category =
    direct_insult
  | ideal_denial
  | command
  | command_soft
  | comparison
  | emotional_dismiss
  | identity_attack
  | conformity
  | capability_deny
  | freedom_restrict
  | goodwill_reject
  | privacy_invade
  | past_blame
  | vague_criticism
  | generalization
  | interrogation_pressure
  | passive_aggressive

fun baseSeverity :: "category \<Rightarrow> real" where
  "baseSeverity direct_insult = 10"
| "baseSeverity ideal_denial = 5"
| "baseSeverity command = 4"
| "baseSeverity command_soft = 3"
| "baseSeverity comparison = 4"
| "baseSeverity emotional_dismiss = 5"
| "baseSeverity identity_attack = 5"
| "baseSeverity conformity = 4"
| "baseSeverity capability_deny = 4"
| "baseSeverity freedom_restrict = 3"
| "baseSeverity goodwill_reject = 5"
| "baseSeverity privacy_invade = 3"
| "baseSeverity past_blame = 3"
| "baseSeverity vague_criticism = 3"
| "baseSeverity generalization = 2"
| "baseSeverity interrogation_pressure = 5"
| "baseSeverity passive_aggressive = 4"

text \<open>\<open>MBTI_MULTIPLIERS\<close>: for each of the sixteen types, the sensitivity of each category
  (\<open>direct_insult\<close> has none). The keys are the type codes in capitals.\<close>

definition INTJ_multipliers :: "(category \<times> real) list" where
  "INTJ_multipliers =
    [(ideal_denial, 1.2), (command, 1.0), (command_soft, 0.8), (comparison, 1.0),
     (emotional_dismiss, 0.6), (identity_attack, 1.2), (conformity, 2.0),
     (capability_deny, 1.5), (freedom_restrict, 1.5), (goodwill_reject, 0.6),
     (privacy_invade, 1.0), (past_blame, 0.8), (vague_criticism, 1.2), (generalization, 1.0),
     (interrogation_pressure, 0.8), (passive_aggressive, 0.8)]"

definition INTP_multipliers :: "(category \<times> real) list" where
  "INTP_multipliers =
    [(ideal_denial, 1.5), (command, 1.2), (command_soft, 1.0), (comparison, 0.8),
     (emotional_dismiss, 0.5), (identity_attack, 1.0), (conformity, 2.0),
     (capability_deny, 1.2), (freedom_restrict, 1.5), (goodwill_reject, 0.5),
     (privacy_invade, 1.2), (past_blame, 0.8), (vague_criticism, 1.8), (generalization, 1.5),
     (interrogation_pressure, 0.8), (passive_aggressive, 0.8)]"

definition ENTJ_multipliers :: "(category \<times> real) list" where
  "ENTJ_multipliers =
    [(ideal_denial, 1.0), (command, 0.8), (command_soft, 0.5), (comparison, 1.2),
     (emotional_dismiss, 0.5), (identity_attack, 1.2), (conformity, 1.0),
     (capability_deny, 2.0), (freedom_restrict, 1.2), (goodwill_reject, 0.6),
     (privacy_invade, 0.8), (past_blame, 1.0), (vague_criticism, 1.0), (generalization, 0.8),
     (interrogation_pressure, 0.6), (passive_aggressive, 0.6)]"

definition ENTP_multipliers :: "(category \<times> real) list" where
  "ENTP_multipliers =
    [(ideal_denial, 1.2), (command, 1.5), (command_soft, 0.8), (comparison, 0.8),
     (emotional_dismiss, 0.5), (identity_attack, 1.0), (conformity, 2.0),
     (capability_deny, 1.0), (freedom_restrict, 1.8), (goodwill_reject, 0.5),
     (privacy_invade, 0.8), (past_blame, 0.8), (vague_criticism, 1.5), (generalization, 1.2),
     (interrogation_pressure, 0.6), (passive_aggressive, 0.8)]"

definition INFJ_multipliers :: "(category \<times> real) list" where
  "INFJ_multipliers =
    [(ideal_denial, 1.5), (command, 1.2), (command_soft, 1.2), (comparison, 1.2),
     (emotional_dismiss, 2.0), (identity_attack, 1.8), (conformity, 1.0),
     (capability_deny, 1.0), (freedom_restrict, 1.0), (goodwill_reject, 1.2),
     (privacy_invade, 1.8), (past_blame, 1.2), (vague_criticism, 1.0), (generalization, 1.2),
     (interrogation_pressure, 1.5), (passive_aggressive, 1.5)]"

definition INFP_multipliers :: "(category \<times> real) list" where
  "INFP_multipliers =
    [(ideal_denial, 2.0), (command, 1.5), (command_soft, 1.5), (comparison, 1.5),
     (emotional_dismiss, 2.0), (identity_attack, 1.8), (conformity, 1.2),
     (capability_deny, 1.0), (freedom_restrict, 1.2), (goodwill_reject, 1.0),
     (privacy_invade, 1.2), (past_blame, 1.5), (vague_criticism, 1.2), (generalization, 1.0),
     (interrogation_pressure, 1.5), (passive_aggressive, 1.8)]"

definition ENFJ_multipliers :: "(category \<times> real) list" where
  "ENFJ_multipliers =
    [(ideal_denial, 1.2), (command, 1.0), (command_soft, 1.0), (comparison, 1.2),
     (emotional_dismiss, 1.5), (identity_attack, 1.5), (conformity, 0.8),
     (capability_deny, 1.0), (freedom_restrict, 0.8), (goodwill_reject, 2.0),
     (privacy_invade, 1.0), (past_blame, 1.0), (vague_criticism, 1.0), (generalization, 1.0),
     (interrogation_pressure, 1.2), (passive_aggressive, 1.2)]"

definition ENFP_multipliers :: "(category \<times> real) list" where
  "ENFP_multipliers =
    [(ideal_denial, 1.8), (command, 1.5), (command_soft, 1.2), (comparison, 1.2),
     (emotional_dismiss, 1.5), (identity_attack, 1.2), (conformity, 1.5),
     (capability_deny, 1.0), (freedom_restrict, 1.8), (goodwill_reject, 0.8),
     (privacy_invade, 0.8), (past_blame, 1.5), (vague_criticism, 1.0), (generalization, 1.0),
     (interrogation_pressure, 1.0), (passive_aggressive, 1.2)]"

definition ISTJ_multipliers :: "(category \<times> real) list" where
  "ISTJ_multipliers =
    [(ideal_denial, 1.5), (command, 0.6), (command_soft, 0.5), (comparison, 1.0),
     (emotional_dismiss, 0.5), (identity_attack, 1.2), (conformity, 0.6),
     (capability_deny, 1.5), (freedom_restrict, 0.8), (goodwill_reject, 0.8),
     (privacy_invade, 1.2), (past_blame, 1.0), (vague_criticism, 1.5), (generalization, 1.2),
     (interrogation_pressure, 0.8), (passive_aggressive, 0.6)]"

definition ISFJ_multipliers :: "(category \<times> real) list" where
  "ISFJ_multipliers =
    [(ideal_denial, 1.2), (command, 1.2), (command_soft, 1.2), (comparison, 1.5),
     (emotional_dismiss, 1.5), (identity_attack, 1.8), (conformity, 0.8),
     (capability_deny, 1.0), (freedom_restrict, 0.8), (goodwill_reject, 2.0),
     (privacy_invade, 1.5), (past_blame, 1.2), (vague_criticism, 1.2), (generalization, 1.0),
     (interrogation_pressure, 1.5), (passive_aggressive, 1.5)]"

definition ESTJ_multipliers :: "(category \<times> real) list" where
  "ESTJ_multipliers =
    [(ideal_denial, 1.0), (command, 0.5), (command_soft, 0.5), (comparison, 1.2),
     (emotional_dismiss, 0.5), (identity_attack, 1.5), (conformity, 0.5),
     (capability_deny, 1.8), (freedom_restrict, 0.6), (goodwill_reject, 0.8),
     (privacy_invade, 0.8), (past_blame, 1.0), (vague_criticism, 1.2), (generalization, 0.8),
     (interrogation_pressure, 0.5), (passive_aggressive, 0.5)]"

definition ESFJ_multipliers :: "(category \<times> real) list" where
  "ESFJ_multipliers =
    [(ideal_denial, 1.0), (command, 1.0), (command_soft, 1.0), (comparison, 1.5),
     (emotional_dismiss, 1.5), (identity_attack, 2.0), (conformity, 0.6),
     (capability_deny, 1.0), (freedom_restrict, 0.8), (goodwill_reject, 1.8),
     (privacy_invade, 1.2), (past_blame, 1.2), (vague_criticism, 1.0), (generalization, 1.0),
     (interrogation_pressure, 1.2), (passive_aggressive, 1.2)]"

definition ISTP_multipliers :: "(category \<times> real) list" where
  "ISTP_multipliers =
    [(ideal_denial, 0.8), (command, 1.5), (command_soft, 1.0), (comparison, 0.8),
     (emotional_dismiss, 0.5), (identity_attack, 1.0), (conformity, 1.5),
     (capability_deny, 1.2), (freedom_restrict, 2.0), (goodwill_reject, 0.5),
     (privacy_invade, 1.5), (past_blame, 0.8), (vague_criticism, 1.2), (generalization, 1.0),
     (interrogation_pressure, 0.8), (passive_aggressive, 0.6)]"

definition ISFP_multipliers :: "(category \<times> real) list" where
  "ISFP_multipliers =
    [(ideal_denial, 1.5), (command, 1.5), (command_soft, 1.2), (comparison, 1.5),
     (emotional_dismiss, 1.8), (identity_attack, 1.5), (conformity, 1.2),
     (capability_deny, 1.0), (freedom_restrict, 1.5), (goodwill_reject, 0.8),
     (privacy_invade, 1.5), (past_blame, 1.2), (vague_criticism, 1.5), (generalization, 1.0),
     (interrogation_pressure, 1.5), (passive_aggressive, 1.5)]"

definition ESTP_multipliers :: "(category \<times> real) list" where
  "ESTP_multipliers =
    [(ideal_denial, 0.8), (command, 1.2), (command_soft, 0.6), (comparison, 1.0),
     (emotional_dismiss, 0.5), (identity_attack, 1.2), (conformity, 1.2),
     (capability_deny, 1.0), (freedom_restrict, 1.8), (goodwill_reject, 0.5),
     (privacy_invade, 1.0), (past_blame, 1.8), (vague_criticism, 0.8), (generalization, 1.0),
     (interrogation_pressure, 0.6), (passive_aggressive, 0.5)]"

definition ESFP_multipliers :: "(category \<times> real) list" where
  "ESFP_multipliers =
    [(ideal_denial, 1.0), (command, 1.2), (command_soft, 1.0), (comparison, 1.5),
     (emotional_dismiss, 1.5), (identity_attack, 2.0), (conformity, 1.0),
     (capability_deny, 0.8), (freedom_restrict, 1.5), (goodwill_reject, 0.8),
     (privacy_invade, 0.8), (past_blame, 1.2), (vague_criticism, 1.0), (generalization, 1.0),
     (interrogation_pressure, 1.0), (passive_aggressive, 1.0)]"

definition MBTI_MULTIPLIERS :: "(jsstring \<times> (category \<times> real) list) list" where
  "MBTI_MULTIPLIERS =
    [([0x0049, 0x004E, 0x0054, 0x004A], INTJ_multipliers),
     ([0x0049, 0x004E, 0x0054, 0x0050], INTP_multipliers),
     ([0x0045, 0x004E, 0x0054, 0x004A], ENTJ_multipliers),
     ([0x0045, 0x004E, 0x0054, 0x0050], ENTP_multipliers),
     ([0x0049, 0x004E, 0x0046, 0x004A], INFJ_multipliers),
     ([0x0049, 0x004E, 0x0046, 0x0050], INFP_multipliers),
     ([0x0045, 0x004E, 0x0046, 0x004A], ENFJ_multipliers),
     ([0x0045, 0x004E, 0x0046, 0x0050], ENFP_multipliers),
     ([0x0049, 0x0053, 0x0054, 0x004A], ISTJ_multipliers),
     ([0x0049, 0x0053, 0x0046, 0x004A], ISFJ_multipliers),
     ([0x0045, 0x0053, 0x0054, 0x004A], ESTJ_multipliers),
     ([0x0045, 0x0053, 0x0046, 0x004A], ESFJ_multipliers),
     ([0x0049, 0x0053, 0x0054, 0x0050], ISTP_multipliers),
     ([0x0049, 0x0053, 0x0046, 0x0050], ISFP_multipliers),
     ([0x0045, 0x0053, 0x0054, 0x0050], ESTP_multipliers),
     ([0x0045, 0x0053, 0x0046, 0x0050], ESFP_multipliers)]"

text \<open>
  An entry of \<open>CATEGORY_PATTERNS\<close> or \<open>DIRECT_INSULTS\<close>: its phrases in the order written,
  and the flag \<open>ultraSevere\<close> (absent, hence false, on all but one entry). The \<open>reason\<close> of
  an entry is display text that no computation reads; it is left out, as is the constant
  \<open>category: "direct_insult"\<close> of the insult entries. Strings are written by their code
  units, in the order of the source.
\<close>

record pattern_entry =
  patterns :: "jsstring list"
  ultraSevere :: bool

definition ideal_denial_patterns :: "pattern_entry list" where
  "ideal_denial_patterns =
    [\<lparr>patterns = [[0x73FE, 0x5B9F, 0x3092, 0x898B], [0x73FE, 0x5B9F, 0x898B], [0x73FE, 0x5B9F, 0x7684, 0x306B],
                     [0x5730, 0x306B, 0x8DB3, 0x3064, 0x3051], [0x76EE, 0x3092, 0x899A, 0x307E, 0x305B]],
      ultraSevere = False\<rparr>,
     \<lparr>patterns = [[0x7406, 0x60F3, 0x8AD6], [0x304D, 0x308C, 0x3044, 0x3054, 0x3068], [0x7D75, 0x7A7A, 0x4E8B],
                     [0x5922, 0x3070, 0x304B, 0x308A], [0x5922, 0x7269, 0x8A9E],
                     [0x673A, 0x4E0A, 0x306E, 0x7A7A, 0x8AD6]],
      ultraSevere = False\<rparr>,
     \<lparr>patterns = [[0x7518, 0x3044], [0x7518, 0x3048, 0x3066, 0x308B], [0x7518, 0x3059, 0x304E],
                     [0x4E16, 0x9593, 0x77E5, 0x3089, 0x305A]],
      ultraSevere = False\<rparr>,
     \<lparr>patterns = [[0x30C0, 0x30E1], [0x30C0, 0x30E1, 0x3060], [0x30C0, 0x30E1, 0x3067, 0x3057, 0x3087]],
      ultraSevere = False\<rparr>,
     \<lparr>patterns = [[0x610F, 0x5473, 0x3042, 0x308B], [0x5F79, 0x306B, 0x7ACB, 0x3064, 0x306E],
                     [0x4F55, 0x306E, 0x5F97, 0x304C], [0x7121, 0x99C4, 0x3058, 0x3083, 0x306A, 0x3044]],
      ultraSevere = False\<rparr>,
     \<lparr>patterns = [[0x30EB, 0x30FC, 0x30EB, 0x901A, 0x308A, 0x3058, 0x3083, 0x306A, 0x304F, 0x3066, 0x3082],
                     [0x30EB, 0x30FC, 0x30EB, 0x306A, 0x3093, 0x3066], [0x898F, 0x5247, 0x306F, 0x7834, 0x308B]],
      ultraSevere = False\<rparr>,
     \<lparr>patterns = [[0x81EA, 0x5206, 0x306E, 0x3053, 0x3068, 0x5148, 0x306B],
                     [0x4EBA, 0x306E, 0x5FC3, 0x914D, 0x3088, 0x308A],
                     [0x81EA, 0x5206, 0x3092, 0x512A, 0x5148, 0x3057, 0x308D]],
      ultraSevere = False\<rparr>,
     \<lparr>patterns = [[0x5922, 0x898B, 0x3059, 0x304E], [0x5984, 0x60F3], [0x73FE, 0x5B9F, 0x96E2, 0x308C]],
      ultraSevere = False\<rparr>,
     \<lparr>patterns = [[0x5C06, 0x6765, 0x306E, 0x3053, 0x3068, 0x8003, 0x3048, 0x3066, 0x308B],
                     [0x5148, 0x306E, 0x3053, 0x3068], [0x5C06, 0x6765, 0x3069, 0x3046, 0x3059, 0x308B],
                     [0x8001, 0x5F8C]],
      ultraSevere = False\<rparr>,
     \<lparr>patterns = [[0x98DF, 0x3079, 0x3066, 0x3044, 0x3051, 0x308B], [0x7A3C, 0x3052, 0x308B, 0x306E],
                     [0x304A, 0x91D1, 0x306B, 0x306A, 0x308B], [0x751F, 0x6D3B, 0x3067, 0x304D, 0x308B]],
      ultraSevere = False\<rparr>,
     \<lparr>patterns = [[0x73FE, 0x5B9F, 0x7684, 0x3058, 0x3083, 0x306A, 0x3044]],
      ultraSevere = False\<rparr>]"

definition command_patterns :: "pattern_entry list" where
  "command_patterns =
    [\<lparr>patterns = [[0x611F, 0x60C5, 0x51FA, 0x3057, 0x3066],
                     [0x6C17, 0x6301, 0x3061, 0x3092, 0x8A00, 0x3063, 0x3066],
                     [0x3082, 0x3063, 0x3068, 0x7B11, 0x3063, 0x3066]],
      ultraSevere = False\<rparr>,
     \<lparr>patterns = [[0x65E9, 0x304F, 0x6C7A, 0x3081, 0x3066], [0x3055, 0x3063, 0x3055, 0x3068, 0x6C7A, 0x3081],
                     [0x3044, 0x3064, 0x307E, 0x3067, 0x8FF7, 0x3063, 0x3066]],
      ultraSevere = False\<rparr>,
     \<lparr>patterns = [[0x843D, 0x3061, 0x7740, 0x304D], [0x843D, 0x3061, 0x7740, 0x3051],
                     [0x843D, 0x3061, 0x7740, 0x3044, 0x3066], [0x9759, 0x304B, 0x306B, 0x3057, 0x3066]],
      ultraSevere = False\<rparr>,
     \<lparr>patterns = [[0x65AD, 0x308C, 0x3070, 0x3044, 0x3044], [0x004E, 0x004F, 0x3068, 0x8A00, 0x3048],
                     [0x5ACC, 0x306A, 0x3089, 0x65AD, 0x308C]],
      ultraSevere = False\<rparr>,
     \<lparr>patterns = [[0x306F, 0x3063, 0x304D, 0x308A, 0x8A00, 0x3063, 0x3066],
                     [0x306F, 0x3063, 0x304D, 0x308A, 0x3057, 0x3066], [0x3069, 0x3063, 0x3061, 0x306A, 0x306E]],
      ultraSevere = False\<rparr>,
     \<lparr>patterns = [[0x843D, 0x3061, 0x7740, 0x3044], [0x51B7, 0x9759, 0x306B],
                     [0x3082, 0x3063, 0x3068, 0x3086, 0x3063, 0x304F, 0x308A]],
      ultraSevere = False\<rparr>,
     \<lparr>patterns = [[0x771F, 0x9762, 0x76EE, 0x306B, 0x3084, 0x3063, 0x3066],
                     [0x771F, 0x5263, 0x306B, 0x3084, 0x308C], [0x904A, 0x3073, 0x3058, 0x3083, 0x306A, 0x3044],
                     [0x3075, 0x3056, 0x3051, 0x3066, 0x306A, 0x3044, 0x3067]],
      ultraSevere = False\<rparr>]"

definition command_soft_patterns :: "pattern_entry list" where
  "command_soft_patterns =
    [\<lparr>patterns = [[0x9811, 0x5F35, 0x308C, 0x3088], [0x9811, 0x5F35, 0x308C, 0x3070],
                     [0x9811, 0x5F35, 0x308A, 0x306A, 0x3088], [0x3082, 0x3063, 0x3068, 0x9811, 0x5F35]],
      ultraSevere = False\<rparr>,
     \<lparr>patterns = [[0x3061, 0x3083, 0x3093, 0x3068, 0x3084, 0x308C],
                     [0x3061, 0x3083, 0x3093, 0x3068, 0x3057, 0x308D],
                     [0x3061, 0x3083, 0x3093, 0x3068, 0x3057, 0x3066]],
      ultraSevere = False\<rparr>,
     \<lparr>patterns = [[0x3057, 0x308D, 0x3088], [0x3084, 0x308C, 0x3088], [0x3057, 0x306A, 0x3088],
                     [0x3084, 0x308A, 0x306A, 0x3088]],
      ultraSevere = False\<rparr>]"

definition comparison_patterns :: "pattern_entry list" where
  "comparison_patterns =
    [\<lparr>patterns = [[0x30EA, 0x30FC, 0x30C0, 0x30FC, 0x3076, 0x308B],
                     [0x4ED5, 0x5207, 0x308A, 0x305F, 0x304C, 0x308A],
                     [0x76EE, 0x7ACB, 0x3061, 0x305F, 0x304C, 0x308A]],
      ultraSevere = False\<rparr>,
     \<lparr>patterns = [[0x512A, 0x3057, 0x304F, 0x8A00, 0x3048, 0x306A, 0x3044],
                     [0x8A00, 0x3044, 0x65B9, 0x304D, 0x3064, 0x3044], [0x30AD, 0x30C4, 0x30A4], [0x6016, 0x3044]],
      ultraSevere = False\<rparr>,
     \<lparr>patterns = [[0x4EBA, 0x306E, 0x76EE, 0x6C17, 0x306B, 0x3057], [0x5468, 0x308A, 0x6C17, 0x306B, 0x3057],
                     [0x4EBA, 0x76EE, 0x3092], [0x9854, 0x8272, 0x3046, 0x304B, 0x304C, 0x3044]],
      ultraSevere = False\<rparr>]"

definition emotional_dismiss_patterns :: "pattern_entry list" where
  "emotional_dismiss_patterns =
    [\<lparr>patterns = [[0x6C17, 0x306B, 0x3057, 0x3059, 0x304E], [0x6C17, 0x306B, 0x3059, 0x308B, 0x306A],
                     [0x6C17, 0x306B, 0x3057, 0x306A, 0x3044, 0x3067],
                     [0x6C17, 0x306B, 0x3057, 0x306A, 0x304F, 0x3066, 0x3044, 0x3044]],
      ultraSevere = False\<rparr>,
     \<lparr>patterns = [[0x8003, 0x3048, 0x3059, 0x304E], [0x8003, 0x3048, 0x904E, 0x304E],
                     [0x6DF1, 0x8AAD, 0x307F, 0x3057, 0x3059, 0x304E]],
      ultraSevere = False\<rparr>,
     \<lparr>patterns = [[0x6CE3, 0x3044, 0x3066, 0x3082], [0x6CE3, 0x304F, 0x306A],
                     [0x6CE3, 0x3044, 0x305F, 0x3063, 0x3066], [0x3081, 0x305D, 0x3081, 0x305D]],
      ultraSevere = False\<rparr>,
     \<lparr>patterns = [[0x7D50, 0x8AD6, 0x306F], [0x7D50, 0x5C40, 0x4F55], [0x8981, 0x3059, 0x308B, 0x306B],
                     [0x3067, 0x3001, 0x4F55, 0x304C, 0x8A00, 0x3044, 0x305F, 0x3044]],
      ultraSevere = False\<rparr>,
     \<lparr>patterns = [[0x3067, 0x3082, 0x3055, 0x3001], [0x3067, 0x3082, 0x3001], [0x3060, 0x3051, 0x3069, 0x3001],
                     [0x3060, 0x3051, 0x3069, 0x3055, 0x3001], [0x3057, 0x304B, 0x3057, 0x3001]],
      ultraSevere = False\<rparr>,
     \<lparr>patterns = [[0x5927, 0x3052, 0x3055], [0x5927, 0x3052, 0x3055, 0x3059, 0x304E],
                     [0x30AA, 0x30FC, 0x30D0, 0x30FC], [0x30AA, 0x30FC, 0x30D0, 0x30FC, 0x3059, 0x304E]],
      ultraSevere = False\<rparr>,
     \<lparr>patterns = [[0x305D, 0x308C, 0x304F, 0x3089, 0x3044, 0x3067],
                     [0x305D, 0x306E, 0x304F, 0x3089, 0x3044, 0x3067], [0x305F, 0x304B, 0x304C],
                     [0x305F, 0x304B, 0x3060, 0x304B]],
      ultraSevere = False\<rparr>,
     \<lparr>patterns = [[0x843D, 0x3061, 0x8FBC, 0x3080, 0x306A], [0x51F9, 0x3080, 0x306A],
                     [0x3078, 0x3053, 0x3080, 0x306A], [0x304F, 0x3088, 0x304F, 0x3088, 0x3059, 0x308B, 0x306A]],
      ultraSevere = False\<rparr>]"

definition identity_attack_patterns :: "pattern_entry list" where
  "identity_attack_patterns =
    [\<lparr>patterns = [[0x7406, 0x5C48, 0x3063, 0x307D, 0x3044], [0x7406, 0x5C48, 0x3070, 0x304B, 0x308A],
                     [0x7406, 0x5C48, 0x3058, 0x3083, 0x306A, 0x3044]],
      ultraSevere = False\<rparr>,
     \<lparr>patterns = [[0x51B7, 0x305F, 0x3044], [0x51B7, 0x305F, 0x3059, 0x304E], [0x8584, 0x60C5],
                     [0x30C9, 0x30E9, 0x30A4]],
      ultraSevere = False\<rparr>,
     \<lparr>patterns = [[0x7E4A, 0x7D30, 0x3059, 0x304E], [0x654F, 0x611F, 0x3059, 0x304E],
                     [0x6253, 0x305F, 0x308C, 0x5F31, 0x3044], [0x30E1, 0x30F3, 0x30BF, 0x30EB, 0x5F31, 0x3044]],
      ultraSevere = False\<rparr>,
     \<lparr>patterns = [[0x4ED5, 0x5207, 0x3089, 0x306A, 0x3044, 0x3067], [0x4ED5, 0x5207, 0x308A, 0x3059, 0x304E],
                     [0x51FA, 0x3057, 0x3083, 0x3070, 0x308A], [0x3067, 0x3057, 0x3083, 0x3070, 0x308B]],
      ultraSevere = False\<rparr>,
     \<lparr>patterns = [[0x8B19, 0x865A, 0x306B], [0x5049, 0x305D, 0x3046], [0x4E0A, 0x304B, 0x3089, 0x76EE, 0x7DDA],
                     [0x50B2, 0x6162], [0x4F55, 0x69D8], [0x5A01, 0x5F35, 0x308B]],
      ultraSevere = False\<rparr>,
     \<lparr>patterns = [[0x5C41, 0x7406, 0x5C48], [0x7406, 0x5C48, 0x3070, 0x3063, 0x304B, 0x308A],
                     [0x3054, 0x3061, 0x3083, 0x3054, 0x3061, 0x3083, 0x8A00, 0x3046],
                     [0x3042, 0x3042, 0x8A00, 0x3048, 0x3070, 0x3053, 0x3046, 0x8A00, 0x3046]],
      ultraSevere = False\<rparr>,
     \<lparr>patterns = [[0x507D, 0x5584], [0x3044, 0x3044, 0x4EBA, 0x3076, 0x3063, 0x3066],
                     [0x3076, 0x308A, 0x3063, 0x5B50], [0x767D, 0x3005, 0x3057, 0x3044]],
      ultraSevere = False\<rparr>,
     \<lparr>patterns = [[0x30C6, 0x30F3, 0x30B7, 0x30E7, 0x30F3, 0x9AD8], [0x3046, 0x308B, 0x3055, 0x3044],
                     [0x9A12, 0x304C, 0x3057, 0x3044], [0x306F, 0x3057, 0x3083, 0x304E, 0x3059, 0x304E]],
      ultraSevere = False\<rparr>,
     \<lparr>patterns = [[0x878D, 0x901A, 0x304D, 0x304B, 0x306A, 0x3044],
                     [0x878D, 0x901A, 0x304C, 0x304D, 0x304B, 0x306A, 0x3044], [0x982D, 0x304C, 0x56FA, 0x3044],
                     [0x77F3, 0x982D]],
      ultraSevere = False\<rparr>,
     \<lparr>patterns = [[0x5805, 0x3059, 0x304E], [0x771F, 0x9762, 0x76EE, 0x3059, 0x304E], [0x5805, 0x7269],
                     [0x30AB, 0x30BF, 0x30D6, 0x30C4]],
      ultraSevere = False\<rparr>,
     \<lparr>patterns = [[0x81EA, 0x5206, 0x306E, 0x610F, 0x898B, 0x306A, 0x3044, 0x306E],
                     [0x610F, 0x898B, 0x304C, 0x306A, 0x3044], [0x4E3B, 0x4F53, 0x6027, 0x304C, 0x306A, 0x3044],
                     [0x8A00, 0x3044, 0x306A, 0x308A]],
      ultraSevere = False\<rparr>,
     \<lparr>patterns = [[0x90FD, 0x5408, 0x3088, 0x304F, 0x4F7F, 0x308F, 0x308C],
                     [0x5229, 0x7528, 0x3055, 0x308C, 0x3066, 0x308B],
                     [0x3044, 0x3044, 0x3088, 0x3046, 0x306B, 0x4F7F, 0x308F, 0x308C]],
      ultraSevere = False\<rparr>,
     \<lparr>patterns = [[0x62BC, 0x3057, 0x4ED8, 0x3051], [0x5F37, 0x5236, 0x3059, 0x308B, 0x306A],
                     [0x62BC, 0x3057, 0x3064, 0x3051, 0x304C, 0x307E, 0x3057, 0x3044]],
      ultraSevere = False\<rparr>,
     \<lparr>patterns = [[0x516B, 0x65B9, 0x7F8E, 0x4EBA], [0x3044, 0x3044, 0x9854, 0x3057, 0x3059, 0x304E],
                     [0x8AB0, 0x306B, 0x3067, 0x3082, 0x3044, 0x3044, 0x9854]],
      ultraSevere = False\<rparr>,
     \<lparr>patterns = [[0x5ACC, 0x308F, 0x308C, 0x305F, 0x304F, 0x306A, 0x3044],
                     [0x597D, 0x304B, 0x308C, 0x305F, 0x3044], [0x4EBA, 0x6C17, 0x53D6, 0x308A], [0x5A9A, 0x3073]],
      ultraSevere = False\<rparr>,
     \<lparr>patterns = [[0x81EA, 0x5206, 0x304C, 0x306A, 0x3044], [0x500B, 0x6027, 0x304C, 0x306A, 0x3044],
                     [0x6CA1, 0x500B, 0x6027], [0x6D41, 0x3055, 0x308C, 0x308B]],
      ultraSevere = False\<rparr>,
     \<lparr>patterns = [[0x512A, 0x67D4, 0x4E0D, 0x65AD], [0x6C7A, 0x3081, 0x3089, 0x308C, 0x306A, 0x3044],
                     [0x8FF7, 0x3044, 0x3059, 0x304E], [0x716E, 0x3048, 0x5207, 0x3089, 0x306A, 0x3044]],
      ultraSevere = False\<rparr>,
     \<lparr>patterns = [[0x96D1, 0x3059, 0x304E], [0x96D1, 0x3060, 0x306D], [0x3044, 0x3044, 0x52A0, 0x6E1B],
                     [0x9069, 0x5F53, 0x3059, 0x304E]],
      ultraSevere = False\<rparr>,
     \<lparr>patterns = [[0x7A7A, 0x6C17, 0x8AAD, 0x3081, 0x3066, 0x306A, 0x3044], [0x004B, 0x0059],
                     [0x5834, 0x9055, 0x3044], [0x6D6E, 0x3044, 0x3066, 0x308B]],
      ultraSevere = False\<rparr>,
     \<lparr>patterns = [[0x30C1, 0x30E3, 0x30E9, 0x3044], [0x8EFD, 0x3044], [0x8EFD, 0x8584],
                     [0x8584, 0x3063, 0x307A, 0x3089, 0x3044]],
      ultraSevere = False\<rparr>,
     \<lparr>patterns = [[0x6DF1, 0x307F, 0x304C, 0x306A, 0x3044], [0x4E2D, 0x8EAB, 0x304C, 0x306A, 0x3044],
                     [0x6D45, 0x3044]],
      ultraSevere = False\<rparr>]"

definition conformity_patterns :: "pattern_entry list" where
  "conformity_patterns =
    [\<lparr>patterns = [[0x5468, 0x308A, 0x306B, 0x5408, 0x308F, 0x305B], [0x5408, 0x308F, 0x305B, 0x305F, 0x3089],
                     [0x5408, 0x308F, 0x305B, 0x308D], [0x5408, 0x308F, 0x305B, 0x306A, 0x3088]],
      ultraSevere = False\<rparr>,
     \<lparr>patterns = [[0x307F, 0x3093, 0x306A, 0x305D, 0x3046, 0x3057, 0x3066, 0x308B],
                     [0x666E, 0x901A, 0x306F, 0x3053, 0x3046], [0x5E38, 0x8B58, 0x7684, 0x306B],
                     [0x4E00, 0x822C, 0x7684, 0x306B, 0x306F]],
      ultraSevere = False\<rparr>,
     \<lparr>patterns = [[0x7A7A, 0x6C17, 0x8AAD], [0x5834, 0x306E, 0x96F0, 0x56F2, 0x6C17], [0x7A7A, 0x6C17, 0x3092]],
      ultraSevere = False\<rparr>,
     \<lparr>patterns = [[0x5354, 0x8ABF, 0x6027, 0x306A, 0x3044], [0x30C1, 0x30FC, 0x30E0, 0x30EF, 0x30FC, 0x30AF],
                     [0x307F, 0x3093, 0x306A, 0x3068, 0x4E00, 0x7DD2, 0x306B],
                     [0x4E00, 0x4EBA, 0x3067, 0x52DD, 0x624B, 0x306B]],
      ultraSevere = False\<rparr>,
     \<lparr>patterns = [[0x666E, 0x901A, 0x306F], [0x666E, 0x901A, 0x3055], [0x5F53, 0x7136, 0x3067, 0x3057, 0x3087],
                     [0x5F53, 0x7136, 0x3060, 0x308D]],
      ultraSevere = False\<rparr>]"

definition capability_deny_patterns :: "pattern_entry list" where
  "capability_deny_patterns =
    [\<lparr>patterns = [[0x4EFB, 0x305B, 0x308B, 0x306E, 0x306F, 0x4E0D, 0x5B89],
                     [0x4EFB, 0x305B, 0x3089, 0x308C, 0x306A, 0x3044], [0x5FC3, 0x914D, 0x3060, 0x304B, 0x3089]],
      ultraSevere = False\<rparr>,
     \<lparr>patterns = [[0x7121, 0x7406, 0x3060, 0x3068, 0x601D, 0x3046], [0x3067, 0x304D, 0x306A, 0x3044, 0x3088],
                     [0x4E0D, 0x53EF, 0x80FD], [0x3069, 0x3046, 0x305B, 0x7121, 0x7406]],
      ultraSevere = False\<rparr>,
     \<lparr>patterns = [[0x3084, 0x308A, 0x65B9, 0x304C, 0x5168, 0x3066, 0x3058, 0x3083, 0x306A, 0x3044],
                     [0x4ED6, 0x306B, 0x3082, 0x3084, 0x308A, 0x65B9], [0x53E4, 0x3044]],
      ultraSevere = False\<rparr>]"

definition freedom_restrict_patterns :: "pattern_entry list" where
  "freedom_restrict_patterns =
    [\<lparr>patterns = [[0x8A08, 0x753B, 0x7684, 0x306B], [0x8A08, 0x753B, 0x3092, 0x7ACB, 0x3066, 0x3066],
                     [0x884C, 0x304D, 0x5F53, 0x305F, 0x308A, 0x3070, 0x3063, 0x305F, 0x308A],
                     [0x7121, 0x8A08, 0x753B]],
      ultraSevere = False\<rparr>,
     \<lparr>patterns = [[0x67D4, 0x8EDF, 0x306B], [0x3082, 0x3063, 0x3068, 0x67D4, 0x8EDF],
                     [0x81E8, 0x6A5F, 0x5FDC, 0x5909, 0x306B], [0x9069, 0x5F53, 0x3067, 0x3044, 0x3044]],
      ultraSevere = False\<rparr>,
     \<lparr>patterns = [[0x5831, 0x9023, 0x76F8], [0x5831, 0x544A, 0x3057, 0x3066], [0x9023, 0x7D61, 0x3057, 0x3066],
                     [0x9010, 0x4E00, 0x5831, 0x544A]],
      ultraSevere = False\<rparr>,
     \<lparr>patterns = [[0x5F8C, 0x5148, 0x8003, 0x3048], [0x5148, 0x306E, 0x3053, 0x3068, 0x8003, 0x3048, 0x3066],
                     [0x30EA, 0x30B9, 0x30AF, 0x8003, 0x3048, 0x308D]],
      ultraSevere = False\<rparr>,
     \<lparr>patterns = [[0x3075, 0x3056, 0x3051], [0x3075, 0x3056, 0x3051, 0x308B, 0x306A],
                     [0x3075, 0x3056, 0x3051, 0x3059, 0x304E], [0x60AA, 0x3075, 0x3056, 0x3051]],
      ultraSevere = False\<rparr>]"

definition goodwill_reject_patterns :: "pattern_entry list" where
  "goodwill_reject_patterns =
    [\<lparr>patterns = [[0x304A, 0x7BC0, 0x4ECB], [0x304A, 0x305B, 0x3063, 0x304B, 0x3044],
                     [0x4F59, 0x8A08, 0x306A, 0x304A, 0x4E16, 0x8A71], [0x983C, 0x3093, 0x3067, 0x306A, 0x3044]],
      ultraSevere = False\<rparr>,
     \<lparr>patterns = [[0x6C17, 0x3092, 0x9063, 0x308F, 0x306A, 0x304F, 0x3066],
                     [0x6C17, 0x9063, 0x3044, 0x4E0D, 0x8981], [0x4F59, 0x8A08, 0x306A, 0x5FC3, 0x914D]],
      ultraSevere = False\<rparr>]"

definition privacy_invade_patterns :: "pattern_entry list" where
  "privacy_invade_patterns =
    [\<lparr>patterns = [[0x672C, 0x97F3, 0x3092, 0x8A00], [0x672C, 0x5FC3, 0x306F],
                     [0x96A0, 0x3055, 0x306A, 0x3044, 0x3067], [0x6B63, 0x76F4, 0x306B, 0x8A00, 0x3063, 0x3066]],
      ultraSevere = False\<rparr>]"

definition past_blame_patterns :: "pattern_entry list" where
  "past_blame_patterns =
    [\<lparr>patterns = [[0x98FD, 0x304D, 0x3063, 0x307D, 0x3044], [0x4E09, 0x65E5, 0x574A, 0x4E3B],
                     [0x7D9A, 0x304B, 0x306A, 0x3044], [0x3059, 0x3050, 0x6295, 0x3052, 0x51FA, 0x3059]],
      ultraSevere = False\<rparr>,
     \<lparr>patterns = [[0x9014, 0x4E2D, 0x3067, 0x3084, 0x3081, 0x308B], [0x3069, 0x3046, 0x305B, 0x307E, 0x305F],
                     [0x307E, 0x305F, 0x98FD, 0x304D, 0x308B]],
      ultraSevere = False\<rparr>,
     \<lparr>patterns = [[0x53CD, 0x7701, 0x3057, 0x3066, 0x308B], [0x53CD, 0x7701, 0x3057, 0x308D],
                     [0x53CD, 0x7701, 0x3057, 0x306A], [0x61F2, 0x308A, 0x306A, 0x3044]],
      ultraSevere = False\<rparr>]"

definition vague_criticism_patterns :: "pattern_entry list" where
  "vague_criticism_patterns =
    [\<lparr>patterns = [[0x3061, 0x3083, 0x3093, 0x3068, 0x3057, 0x3066],
                     [0x3057, 0x3063, 0x304B, 0x308A, 0x3057, 0x3066], [0x3060, 0x3089, 0x3057, 0x306A, 0x3044],
                     [0x3057, 0x3063, 0x304B, 0x308A, 0x3057, 0x306A],
                     [0x3061, 0x3083, 0x3093, 0x3068, 0x3057, 0x306A],
                     [0x3082, 0x3063, 0x3068, 0x3057, 0x3063, 0x304B, 0x308A]],
      ultraSevere = False\<rparr>,
     \<lparr>patterns = [[0x66D6, 0x6627]],
      ultraSevere = False\<rparr>]"

definition generalization_patterns :: "pattern_entry list" where
  "generalization_patterns =
    [\<lparr>patterns = [[0x3044, 0x3064, 0x3082], [0x6BCE, 0x56DE], [0x3044, 0x3063, 0x3064, 0x3082]],
      ultraSevere = False\<rparr>,
     \<lparr>patterns = [[0x7D76, 0x5BFE], [0x7D76, 0x5BFE, 0x306B], [0x5FC5, 0x305A]],
      ultraSevere = False\<rparr>]"

definition interrogation_pressure_patterns :: "pattern_entry list" where
  "interrogation_pressure_patterns =
    [\<lparr>patterns = [[0x306A, 0x3093, 0x3067, 0xFF1F], [0x306A, 0x3093, 0x3067, 0x3067, 0x304D, 0x306A, 0x3044],
                     [0x306A, 0x305C, 0x3067, 0x304D, 0x306A, 0x3044], [0x30CA, 0x30F3, 0x30C7],
                     [0x3069, 0x3046, 0x3057, 0x3066, 0x3067, 0x304D, 0x306A, 0x3044]],
      ultraSevere = False\<rparr>,
     \<lparr>patterns = [[0x4F55, 0x56DE, 0x8A00, 0x308F, 0x305B, 0x308B], [0x4F55, 0x5EA6, 0x8A00, 0x3048, 0x3070],
                     [0x4F55, 0x56DE, 0x8A00, 0x3063, 0x305F, 0x3089]],
      ultraSevere = False\<rparr>,
     \<lparr>patterns = [[0x3069, 0x3046, 0x3057, 0x3066, 0x6BCE, 0x56DE],
                     [0x3044, 0x3064, 0x306B, 0x306A, 0x3063, 0x305F, 0x3089]],
      ultraSevere = False\<rparr>]"

definition passive_aggressive_patterns :: "pattern_entry list" where
  "passive_aggressive_patterns =
    [\<lparr>patterns = [[0x671F, 0x5F85, 0x3057, 0x3066, 0x306A, 0x3044], [0x671F, 0x5F85, 0x3057, 0x306A, 0x3044],
                     [0x671F, 0x5F85, 0x3067, 0x304D, 0x306A, 0x3044]],
      ultraSevere = False\<rparr>,
     \<lparr>patterns = [[0x307E, 0x3042, 0x3044, 0x3044, 0x3093, 0x3058, 0x3083, 0x306A, 0x3044],
                     [0x5225, 0x306B, 0x3044, 0x3044, 0x3051, 0x3069],
                     [0x597D, 0x304D, 0x306B, 0x3059, 0x308C, 0x3070],
                     [0x3069, 0x3046, 0x3067, 0x3082, 0x3044, 0x3044]],
      ultraSevere = False\<rparr>,
     \<lparr>patterns = [[0x5225, 0x306B, 0x3044, 0x3044, 0x3088], [0x3054, 0x81EA, 0x7531, 0x306B],
                     [0x52DD, 0x624B, 0x306B, 0x3059, 0x308C, 0x3070]],
      ultraSevere = False\<rparr>]"

definition CATEGORY_PATTERNS :: "(category \<times> pattern_entry list) list" where
  "CATEGORY_PATTERNS =
    [(ideal_denial, ideal_denial_patterns), (command, command_patterns),
     (command_soft, command_soft_patterns), (comparison, comparison_patterns),
     (emotional_dismiss, emotional_dismiss_patterns),
     (identity_attack, identity_attack_patterns), (conformity, conformity_patterns),
     (capability_deny, capability_deny_patterns),
     (freedom_restrict, freedom_restrict_patterns),
     (goodwill_reject, goodwill_reject_patterns), (privacy_invade, privacy_invade_patterns),
     (past_blame, past_blame_patterns), (vague_criticism, vague_criticism_patterns),
     (generalization, generalization_patterns),
     (interrogation_pressure, interrogation_pressure_patterns),
     (passive_aggressive, passive_aggressive_patterns)]"

definition DIRECT_INSULTS :: "pattern_entry list" where
  "DIRECT_INSULTS =
    [\<lparr>patterns = [[0x3070, 0x304B], [0x30D0, 0x30AB], [0x99AC, 0x9E7F]],
      ultraSevere = False\<rparr>,
     \<lparr>patterns = [[0x30A2, 0x30DB], [0x3042, 0x307B], [0x963F, 0x5446]],
      ultraSevere = False\<rparr>,
     \<lparr>patterns = [[0x7121, 0x80FD], [0x80FD, 0x7121, 0x3057], [0x5F79, 0x7ACB, 0x305F, 0x305A]],
      ultraSevere = False\<rparr>,
     \<lparr>patterns = [[0x6B7B, 0x306D], [0x3057, 0x306D], [0x30BF, 0x30D2, 0x306D], [0x6B7B, 0x3093, 0x3067],
                     [0x6B7B, 0x306D, 0x3070]],
      ultraSevere = True\<rparr>,
     \<lparr>patterns = [[0x30AF, 0x30BA], [0x304F, 0x305A], [0x30AB, 0x30B9], [0x30B4, 0x30DF]],
      ultraSevere = False\<rparr>,
     \<lparr>patterns = [[0x304D, 0x3082, 0x3044], [0x30AD, 0x30E2, 0x3044], [0x30AD, 0x30E2, 0x30A4],
                     [0x6C17, 0x6301, 0x3061, 0x60AA, 0x3044]],
      ultraSevere = False\<rparr>,
     \<lparr>patterns = [[0x3046, 0x3056, 0x3044], [0x30A6, 0x30B6, 0x3044], [0x30A6, 0x30B6, 0x30A4]],
      ultraSevere = False\<rparr>,
     \<lparr>patterns = [[0x304A, 0x524D], [0x3066, 0x3081, 0x3048], [0x3066, 0x3081, 0x3047], [0x304A, 0x307E, 0x3048]],
      ultraSevere = False\<rparr>]"

definition QUOTE_PATTERNS :: "jsstring list" where
  "QUOTE_PATTERNS =
    [[0x3063, 0x3066, 0x8A00, 0x308F, 0x308C, 0x305F],
     [0x3068, 0x8A00, 0x308F, 0x308C, 0x305F], [0x8A00, 0x308F, 0x308C, 0x305F, 0x3089],
     [0x3063, 0x3066, 0x8A00, 0x3046, 0x306A],
     [0x3063, 0x3066, 0x8A00, 0x308F, 0x308C, 0x3066],
     [0x3068, 0x8A00, 0x308F, 0x308C, 0x3066]]"

section \<open>Normalisation\<close>

definition hankakuMap :: jsstring where
  "hankakuMap =
    [0xFF66, 0xFF67, 0xFF68, 0xFF69, 0xFF6A, 0xFF6B, 0xFF6C, 0xFF6D, 0xFF6E, 0xFF6F, 0xFF70,
     0xFF71, 0xFF72, 0xFF73, 0xFF74, 0xFF75, 0xFF76, 0xFF77, 0xFF78, 0xFF79, 0xFF7A, 0xFF7B,
     0xFF7C, 0xFF7D, 0xFF7E, 0xFF7F, 0xFF80, 0xFF81, 0xFF82, 0xFF83, 0xFF84, 0xFF85, 0xFF86,
     0xFF87, 0xFF88, 0xFF89, 0xFF8A, 0xFF8B, 0xFF8C, 0xFF8D, 0xFF8E, 0xFF8F, 0xFF90, 0xFF91,
     0xFF92, 0xFF93, 0xFF94, 0xFF95, 0xFF96, 0xFF97, 0xFF98, 0xFF99, 0xFF9A, 0xFF9B, 0xFF9C,
     0xFF9D, 0xFF9E, 0xFF9F]"

definition zenkakuMap :: jsstring where
  "zenkakuMap =
    [0x30F2, 0x30A1, 0x30A3, 0x30A5, 0x30A7, 0x30A9, 0x30E3, 0x30E5, 0x30E7, 0x30C3, 0x30FC,
     0x30A2, 0x30A4, 0x30A6, 0x30A8, 0x30AA, 0x30AB, 0x30AD, 0x30AF, 0x30B1, 0x30B3, 0x30B5,
     0x30B7, 0x30B9, 0x30BB, 0x30BD, 0x30BF, 0x30C1, 0x30C4, 0x30C6, 0x30C8, 0x30CA, 0x30CB,
     0x30CC, 0x30CD, 0x30CE, 0x30CF, 0x30D2, 0x30D5, 0x30D8, 0x30DB, 0x30DE, 0x30DF, 0x30E0,
     0x30E1, 0x30E2, 0x30E4, 0x30E6, 0x30E8, 0x30E9, 0x30EA, 0x30EB, 0x30EC, 0x30ED, 0x30EF,
     0x30F3, 0x309B, 0x309C]"

text \<open>The callback of the third replacement of \<open>normalizeText\<close>: the character of
  \<open>zenkakuMap\<close> at the index of the character in \<open>hankakuMap\<close>. Reading \<open>zenkakuMap\<close>
  past its end would give \<open>undefined\<close>, which \<open>replace\<close> inserts as that word.\<close>

definition undefinedStr :: jsstring where
  "undefinedStr = [0x75, 0x6E, 0x64, 0x65, 0x66, 0x69, 0x6E, 0x65, 0x64]"

definition hankakuToZenkaku :: "int \<Rightarrow> jsstring" where
  "hankakuToZenkaku ch =
     (case indexOf hankakuMap [ch] of
        None \<Rightarrow> [ch]
      | Some idx \<Rightarrow> if idx < length zenkakuMap then [zenkakuMap ! idx] else undefinedStr)"

definition normalizeText :: "jsstring \<Rightarrow> jsstring" where
  "normalizeText text =
     (let t = filter (\<lambda>c. \<not> isWhiteSpace c) text;
          t = map (\<lambda>ch. if (0xFF21 \<le> ch \<and> ch \<le> 0xFF3A) \<or> (0xFF41 \<le> ch \<and> ch \<le> 0xFF5A)
                            \<or> (0xFF10 \<le> ch \<and> ch \<le> 0xFF19)
                         then ch - 0xFEE0 else ch) t;
          t = concat (map (\<lambda>ch. if 0xFF66 \<le> ch \<and> ch \<le> 0xFF9F then hankakuToZenkaku ch
                                 else [ch]) t);
          t = toLowerCase t
      in t)"

section \<open>The analysis\<close>

text \<open>\<open>QUOTE_PATTERNS\<close> and \<open>isQuotedInsult\<close>: whether one of the quotation contexts occurs
  in the text from the position of the match on.\<close>

fun quotedLoop :: "jsstring \<Rightarrow> jsstring list \<Rightarrow> bool" where
  "quotedLoop after [] = False"
| "quotedLoop after (qp # qps) = (if includesStr after qp then True else quotedLoop after qps)"

definition isQuotedInsult :: "jsstring \<Rightarrow> nat \<Rightarrow> bool" where
  "isQuotedInsult text matchIndex = (let after = drop matchIndex text in quotedLoop after QUOTE_PATTERNS)"

text \<open>An element of \<open>found\<close>. The fields \<open>category\<close> and \<open>damage\<close> are \<open>_category\<close> and
  \<open>_damage\<close> of the source, which the result drops; the \<open>reason\<close> is left out with the
  entries' own.\<close>

record finding =
  keyword :: jsstring
  mbtiTypes :: "jsstring list"
  category :: category
  damage :: real

text \<open>The variables that the two detection phases of \<open>analyzeLocal\<close> update. The two
  damage objects keep their keys in the order of insertion.\<close>

record scan =
  found :: "finding list"
  categoryBaseDamage :: "(category \<times> real) list"
  categoryMbtiDamage :: "(category \<times> real) list"
  directInsultCount :: nat
  hasUltraSevere :: bool

definition scan0 :: scan where
  "scan0 = \<lparr>found = [], categoryBaseDamage = [], categoryMbtiDamage = [],
            directInsultCount = 0, hasUltraSevere = False\<rparr>"

text \<open>\<open>obj[c] = (obj[c] || 0) + v\<close>.\<close>

fun addDamage :: "category \<Rightarrow> real \<Rightarrow> (category \<times> real) list \<Rightarrow> (category \<times> real) list" where
  "addDamage c v [] = [(c, 0 + v)]"
| "addDamage c v ((k, w) # kvs) =
     (if k = c then (k, w + v) # kvs else (k, w) # addDamage c v kvs)"

text \<open>Phase 1, the loop over the phrases of one insult entry. Every path through the
  body of a matching phrase ends in \<open>break\<close>.\<close>

fun insultPatterns :: "jsstring \<Rightarrow> jsstring \<Rightarrow> pattern_entry \<Rightarrow> jsstring list \<Rightarrow> scan \<Rightarrow> scan" where
  "insultPatterns normalized targetMbti di [] st = st"
| "insultPatterns normalized targetMbti di (pattern # rest) st =
     (case indexOf normalized pattern of
        None \<Rightarrow> insultPatterns normalized targetMbti di rest st
      | Some idx \<Rightarrow>
          if isQuotedInsult normalized idx then st
          else if \<not> list_ex (\<lambda>f. keyword f = pattern) (found st) then
            (let base = baseSeverity direct_insult in
             st\<lparr>categoryBaseDamage := addDamage direct_insult base (categoryBaseDamage st),
                categoryMbtiDamage := addDamage direct_insult base (categoryMbtiDamage st),
                directInsultCount := directInsultCount st + 1,
                hasUltraSevere := (if ultraSevere di then True else hasUltraSevere st),
                found := found st @
                  [\<lparr>keyword = pattern, mbtiTypes = [targetMbti], category = direct_insult,
                    damage = base\<rparr>]\<rparr>)
          else st)"

fun insultLoop :: "jsstring \<Rightarrow> jsstring \<Rightarrow> pattern_entry list \<Rightarrow> scan \<Rightarrow> scan" where
  "insultLoop normalized targetMbti [] st = st"
| "insultLoop normalized targetMbti (di # dis) st =
     insultLoop normalized targetMbti dis
       (insultPatterns normalized targetMbti di (patterns di) st)"

text \<open>\<open>multipliers[catId] || 1.0\<close>.\<close>

definition multiplierOf :: "(category \<times> real) list \<Rightarrow> category \<Rightarrow> real" where
  "multiplierOf multipliers catId =
     (case map_of multipliers catId of None \<Rightarrow> 1.0 | Some v \<Rightarrow> if v = 0 then 1.0 else v)"

text \<open>Phase 2: the loops over the phrases of an entry, the entries of a category and the
  categories. \<open>PSY_CATEGORIES[catId]?.baseSeverity || 3\<close> falls back to 3.\<close>

fun categoryPatterns ::
  "jsstring \<Rightarrow> jsstring \<Rightarrow> (category \<times> real) list \<Rightarrow> category \<Rightarrow> jsstring list \<Rightarrow> scan \<Rightarrow> scan" where
  "categoryPatterns normalized targetMbti multipliers catId [] st = st"
| "categoryPatterns normalized targetMbti multipliers catId (pattern # rest) st =
     (if includesStr normalized pattern then
        (if \<not> list_ex (\<lambda>f. keyword f = pattern) (found st) then
           (let base = (if baseSeverity catId = 0 then 3 else baseSeverity catId);
                mult = multiplierOf multipliers catId;
                mbtiDamage = base * mult in
            st\<lparr>categoryBaseDamage := addDamage catId base (categoryBaseDamage st),
               categoryMbtiDamage := addDamage catId mbtiDamage (categoryMbtiDamage st),
               found := found st @
                 [\<lparr>keyword = pattern, mbtiTypes = [targetMbti], category = catId,
                   damage = mbtiDamage\<rparr>]\<rparr>)
         else st)
      else categoryPatterns normalized targetMbti multipliers catId rest st)"

fun categoryEntries ::
  "jsstring \<Rightarrow> jsstring \<Rightarrow> (category \<times> real) list \<Rightarrow> category \<Rightarrow> pattern_entry list \<Rightarrow> scan \<Rightarrow> scan" where
  "categoryEntries normalized targetMbti multipliers catId [] st = st"
| "categoryEntries normalized targetMbti multipliers catId (entry # entries) st =
     categoryEntries normalized targetMbti multipliers catId entries
       (categoryPatterns normalized targetMbti multipliers catId (patterns entry) st)"

fun categoryLoop ::
  "jsstring \<Rightarrow> jsstring \<Rightarrow> (category \<times> real) list \<Rightarrow> (category \<times> pattern_entry list) list \<Rightarrow> scan \<Rightarrow> scan" where
  "categoryLoop normalized targetMbti multipliers [] st = st"
| "categoryLoop normalized targetMbti multipliers ((catId, entries) # rest) st =
     categoryLoop normalized targetMbti multipliers rest
       (categoryEntries normalized targetMbti multipliers catId entries st)"

text \<open>\<open>MBTI_MULTIPLIERS[targetMbti] || {}\<close>. A key that is not one of the sixteen gives
  \<open>undefined\<close> or an inherited member of the object, neither of which has a category as
  a property: both read as the empty table.\<close>

definition multipliersOf :: "jsstring \<Rightarrow> (category \<times> real) list" where
  "multipliersOf targetMbti =
     (case map_of MBTI_MULTIPLIERS targetMbti of None \<Rightarrow> [] | Some m \<Rightarrow> m)"

text \<open>The state after the two detection phases on the normalised text.\<close>

definition detect :: "jsstring \<Rightarrow> jsstring \<Rightarrow> scan" where
  "detect normalized targetMbti =
     categoryLoop normalized targetMbti (multipliersOf targetMbti) CATEGORY_PATTERNS
       (insultLoop normalized targetMbti DIRECT_INSULTS scan0)"

subsection \<open>Tone and pressure\<close>

definition exclam :: "int list" where "exclam = [0xFF01, 0x0021]"
definition question :: "int list" where "question = [0xFF1F, 0x003F]"

text \<open>\<open>/[!]{2,}|[!][?]|[?][!]/\<close>, \<open>/[?]{3,}/\<close> and \<open>/[?]{2,}/\<close>, each class with the
  full-width mark too. A repetition \<open>{n,}\<close> that ends its alternative matches exactly
  where \<open>n\<close> copies do.\<close>

definition reEmphasis :: "atom list list" where
  "reEmphasis = [[Cls exclam, Cls exclam], [Cls exclam, Cls question], [Cls question, Cls exclam]]"

definition reExclam :: "atom list list" where
  "reExclam = [lit [0xFF01], lit [0x0021]]"

definition reQuestion3 :: "atom list list" where
  "reQuestion3 = [[Cls question, Cls question, Cls question]]"

definition reQuestion2 :: "atom list list" where
  "reQuestion2 = [[Cls question, Cls question]]"

text \<open>The expression for emphasis in katakana.\<close>

definition reKatakana :: "atom list list" where
  "reKatakana =
     [lit [0x30CA, 0x30F3, 0x30C7], lit [0x30DE, 0x30B8, 0x30C7], lit [0x30D5, 0x30C4, 0x30A6],
      lit [0x30DB, 0x30F3, 0x30C8] @ [Cls [0x30CB, 0x4E8C]],
      lit [0x30A4, 0x30DF] @ [Cls [0x30EF, 0x30CF]] @ lit [0x30AB],
      lit [0x30C0, 0x30AB, 0x30E9], lit [0x30E0, 0x30EA] @ [Cls [0x30C0, 0x3060]],
      lit [0x30A6, 0x30B6], lit [0x30AD, 0x30E2]]"

text \<open>The expression for commands; its first alternative ends at the end of a line.\<close>

definition reCommand :: "atom list list" where
  "reCommand =
     [[Cls [0x3057, 0x3059, 0x304D], Cls [0x308D], Opt [0x3002, 0xFF01, 0x0021], EndOfLine],
      lit [0x3057, 0x306A, 0x3055, 0x3044], lit [0x3059, 0x308B, 0x306A],
      lit [0x3084, 0x3081, 0x308D], lit [0x3084, 0x3081, 0x306A, 0x3055, 0x3044],
      lit [0x9ED9, 0x308C], lit [0x51FA, 0x3066, 0x3044, 0x3051], lit [0x6D88, 0x3048, 0x308D],
      lit [0x3069, 0x3051], lit [0x5931, 0x305B, 0x308D], lit [0x5E30, 0x308C],
      lit [0x6765, 0x308B, 0x306A]]"

text \<open>The expression for negations.\<close>

definition reNegation :: "atom list list" where
  "reNegation =
     [lit [0x306A, 0x3044], lit [0x307E, 0x305B, 0x3093], lit [0x3058, 0x3083, 0x306A, 0x3044],
      lit [0x3067, 0x306F, 0x306A, 0x3044], lit [0x3067, 0x304D, 0x306A, 0x3044],
      lit [0x3057, 0x306A, 0x3044]]"

definition toneCorrection :: "jsstring \<Rightarrow> jsstring \<Rightarrow> real" where
  "toneCorrection text normalized =
     (if regexTest reEmphasis text then 15
      else (let exclamCount = countMatches reExclam text in
            if exclamCount \<ge> 3 then 8 else if exclamCount \<ge> 1 then 1 else 0))
     + (if regexTest reQuestion3 text then 15 else if regexTest reQuestion2 text then 8 else 0)
     + (if regexTest reKatakana normalized then 15 else 0)
     + (if regexTest reCommand normalized then 10 else 0)
     + (let negCount = countMatches reNegation normalized in if negCount \<ge> 3 then 5 else 0)"

definition pressureCorrection :: "jsstring \<Rightarrow> scan \<Rightarrow> real" where
  "pressureCorrection normalized st =
     (if length normalized > 200 then 2 else 0)
     + (if length normalized < 5 \<and> length normalized > 0 then 3 else 0)
     + (let uniqueCats = map fst (categoryMbtiDamage st) in
        if length uniqueCats \<ge> 3 then 5 else 0)"

subsection \<open>The score\<close>

text \<open>\<open>Object.values(obj).reduce((a, b) => a + b, 0)\<close>.\<close>

definition totalDamage :: "(category \<times> real) list \<Rightarrow> real" where
  "totalDamage obj = foldl (\<lambda>a b. a + b) 0 (map snd obj)"

text \<open>\<open>Math.max(0, Math.min(100, Math.round(100 - deduction)))\<close> with the deduction of
  a total damage.\<close>

definition scoreOf :: "real \<Rightarrow> real \<Rightarrow> real \<Rightarrow> real" where
  "scoreOf totalDmg toneCorr pressureCorr =
     (let deduction = Math_pow totalDmg 1.3 * 2.0 + toneCorr + pressureCorr
      in max 0 (min 100 (Math_round (100 - deduction))))"

text \<open>The score of \<open>analyzeLocal\<close> from the state of the detection and the two
  corrections: the score of the type, kept within ten points of the base score, under
  the cap of the insults.\<close>

definition finalScore :: "scan \<Rightarrow> real \<Rightarrow> real \<Rightarrow> real" where
  "finalScore st toneCorr pressureCorr =
     (let totalBaseDamage = totalDamage (categoryBaseDamage st);
          totalMbtiDamage = totalDamage (categoryMbtiDamage st);
          baseScore = scoreOf totalBaseDamage toneCorr pressureCorr;
          mbtiRawScore = scoreOf totalMbtiDamage toneCorr pressureCorr;
          score = max 0 (min 100 (max (baseScore - 10) (min (baseScore + 10) mbtiRawScore)))
      in if hasUltraSevere st then min score 5
         else if directInsultCount st > 0 then
           (let insultCap = max 0 (30 - (real (directInsultCount st) - 1) * 20)
            in min score insultCap)
         else score)"

text \<open>The result of \<open>analyzeLocal\<close>. Of its four fields the model keeps \<open>score\<close> and
  \<open>ngWords\<close>; \<open>scoreReason\<close> and \<open>improved\<close> are display text built from the same state.\<close>

record ngWord =
  ng_keyword :: jsstring
  ng_mbtiTypes :: "jsstring list"

record analysis =
  score :: real
  ngWords :: "ngWord list"

definition cleanFound :: "finding list \<Rightarrow> ngWord list" where
  "cleanFound fs = map (\<lambda>f. \<lparr>ng_keyword = keyword f, ng_mbtiTypes = mbtiTypes f\<rparr>) fs"

definition analyzeLocal :: "jsstring \<Rightarrow> jsstring \<Rightarrow> analysis" where
  "analyzeLocal text targetMbti =
     (let normalized = normalizeText text;
          st = detect normalized targetMbti;
          toneCorr = toneCorrection text normalized;
          pressureCorr = pressureCorrection normalized st
      in \<lparr>score = finalScore st toneCorr pressureCorr, ngWords = cleanFound (found st)\<rparr>)"

section \<open>The request handler\<close>

text \<open>
  \<open>/^[EI][SN][TF][JP]$/i\<close>: the whole string is four letters, one of each pair, in either
  case. The expression has no flag \<open>m\<close>, so its anchors are the two ends of the string.
\<close>

definition reMbti :: "atom list" where
  "reMbti = [Cls [0x45, 0x49, 0x65, 0x69], Cls [0x53, 0x4E, 0x73, 0x6E],
             Cls [0x54, 0x46, 0x74, 0x66], Cls [0x4A, 0x50, 0x6A, 0x70]]"

definition isMbtiCode :: "jsstring \<Rightarrow> bool" where
  "isMbtiCode s \<longleftrightarrow> matchLen reMbti s = Some (length s)"

text \<open>
  The request as \<open>handler\<close> reads it: the method, and the fields \<open>text\<close> and \<open>targetMbti\<close>
  of the body, \<open>None\<close> when the field is absent or not a string. \<open>useAI\<close> says whether an
  API key is configured; the call to the remote model is not part of the model.
\<close>

record request =
  http_method :: jsstring
  body_text :: "jsstring option"
  body_targetMbti :: "jsstring option"

datatype response =
    Status204
  | Status405
  | Status400
  | CallClaudeAPI jsstring jsstring
  | Status200 analysis

definition OPTIONS :: jsstring where
  "OPTIONS = [0x4F, 0x50, 0x54, 0x49, 0x4F, 0x4E, 0x53]"

definition POST :: jsstring where
  "POST = [0x50, 0x4F, 0x53, 0x54]"

definition handler :: "bool \<Rightarrow> request \<Rightarrow> response" where
  "handler useAI req =
     (if http_method req = OPTIONS then Status204
      else if http_method req \<noteq> POST then Status405
      else case body_text req of
        None \<Rightarrow> Status400
      | Some text \<Rightarrow>
          if text = [] \<or> length (trim text) = 0 then Status400
          else case body_targetMbti req of
            None \<Rightarrow> Status400
          | Some targetMbti \<Rightarrow>
              if targetMbti = [] \<or> \<not> isMbtiCode targetMbti then Status400
              else if useAI then CallClaudeAPI (trim text) (toUpperCase targetMbti)
              else Status200 (analyzeLocal (trim text) (toUpperCase targetMbti)))"

section \<open>Notions used to state the properties\<close>



text \<open>The first phrase of a list, in the order written, that occurs in the text, with the
  position of its first occurrence: the phrase at which the loop over the phrases of an
  entry stops.\<close>

fun firstMatch :: "jsstring \<Rightarrow> jsstring list \<Rightarrow> (jsstring \<times> nat) option" where
  "firstMatch normalized [] = None"
| "firstMatch normalized (p # ps) =
     (case indexOf normalized p of
        None \<Rightarrow> firstMatch normalized ps
      | Some idx \<Rightarrow> Some (p, idx))"

text \<open>An insult entry hits when its first matching phrase is not in a quotation context.\<close>

definition insultHit :: "jsstring \<Rightarrow> pattern_entry \<Rightarrow> bool" where
  "insultHit normalized di =
     (case firstMatch normalized (patterns di) of
        None \<Rightarrow> False
      | Some (p, idx) \<Rightarrow> \<not> isQuotedInsult normalized idx)"

definition allPhrases :: "pattern_entry list \<Rightarrow> jsstring list" where
  "allPhrases es = concat (map patterns es)"

text \<open>The part of the detection state that does not mention the personality type.\<close>

definition typeFree ::
  "scan \<Rightarrow> jsstring list \<times> (category \<times> real) list \<times> category list \<times> nat \<times> bool" where
  "typeFree st =
     (map keyword (found st), categoryBaseDamage st, map fst (categoryMbtiDamage st),
      directInsultCount st, hasUltraSevere st)"

text \<open>All entries that the two phases go through, and the invariant of \<open>found\<close>: no
  phrase twice, and each the first matching phrase of an entry.\<close>

definition allEntries :: "pattern_entry list" where
  "allEntries = DIRECT_INSULTS @ concat (map snd CATEGORY_PATTERNS)"

definition goodFound :: "jsstring \<Rightarrow> pattern_entry set \<Rightarrow> finding list \<Rightarrow> bool" where
  "goodFound n E fs \<longleftrightarrow>
     distinct (map keyword fs)
     \<and> (\<forall>f \<in> set fs. \<exists>e \<in> E. map_option fst (firstMatch n (patterns e)) = Some (keyword f))"


text \<open>The score with the personality left out: the base score under the cap of the insults.\<close>

definition baseOnlyScore :: "scan \<Rightarrow> real \<Rightarrow> real \<Rightarrow> real" where
  "baseOnlyScore st toneCorr pressureCorr =
     (let baseScore = scoreOf (totalDamage (categoryBaseDamage st)) toneCorr pressureCorr
      in if hasUltraSevere st then min baseScore 5
         else if directInsultCount st > 0 then
           min baseScore (max 0 (30 - (real (directInsultCount st) - 1) * 20))
         else baseScore)"









section \<open>Normalisation is idempotent\<close>






section \<open>Facts about strings and the two detection loops\<close>

lemma list_ex_keyword: "list_ex (\<lambda>f. keyword f = p) fs \<longleftrightarrow> p \<in> set (map keyword fs)"
  by (induction fs) auto

lemma startsWith_iff: "startsWith s p \<longleftrightarrow> (\<exists>b. s = p @ b)"
  by (induction s p rule: startsWith.induct) auto

lemma indexOf_Some:
  "indexOf s p = Some i \<Longrightarrow> i \<le> length s \<and> startsWith (drop i s) p"
proof (induction s arbitrary: i)
  case Nil
  then show ?case by (auto split: if_splits)
next
  case (Cons c cs)
  then show ?case by (auto split: if_splits)
qed

lemma indexOf_None: "indexOf s p = None \<Longrightarrow> \<not> startsWith (drop i s) p"
proof (induction s arbitrary: i)
  case Nil
  then show ?case by (cases p) (auto split: if_splits)
next
  case (Cons c cs)
  then show ?case by (cases i) (auto split: if_splits)
qed

lemma includesStr_iff: "includesStr s p \<longleftrightarrow> (\<exists>a b. s = a @ p @ b)"
proof
  assume "includesStr s p"
  then obtain i where i: "indexOf s p = Some i" by (auto simp: includesStr_def)
  from indexOf_Some [OF i] obtain b where "drop i s = p @ b" by (auto simp: startsWith_iff)
  then have "s = take i s @ p @ b" by (metis append_take_drop_id)
  then show "\<exists>a b. s = a @ p @ b" by blast
next
  assume "\<exists>a b. s = a @ p @ b"
  then obtain a b where s: "s = a @ p @ b" by blast
  have "startsWith (drop (length a) s) p" by (simp add: s startsWith_iff)
  then have "indexOf s p \<noteq> None" using indexOf_None by blast
  then show "includesStr s p" by (simp add: includesStr_def)
qed

lemma includesStr_set: "includesStr s p \<Longrightarrow> set p \<subseteq> set s"
  by (auto simp: includesStr_iff)

lemma includesStr_drop: "includesStr (drop i s) p \<Longrightarrow> includesStr s p"
proof -
  assume "includesStr (drop i s) p"
  then obtain a b where "drop i s = a @ p @ b" by (auto simp: includesStr_iff)
  then have "s = (take i s @ a) @ p @ b" by (metis append_take_drop_id append_assoc)
  then show ?thesis unfolding includesStr_iff by blast
qed

lemma quotedLoop_iff: "quotedLoop after qps \<longleftrightarrow> (\<exists>qp \<in> set qps. includesStr after qp)"
  by (induction qps) auto

lemma isQuotedInsult_iff:
  "isQuotedInsult s i \<longleftrightarrow> (\<exists>qp \<in> set QUOTE_PATTERNS. includesStr (drop i s) qp)"
  by (simp add: isQuotedInsult_def Let_def quotedLoop_iff)

lemma quote_has_iu: "\<forall>qp \<in> set QUOTE_PATTERNS. 0x8A00 \<in> set qp"
  by code_simp

lemma no_iu_not_quoted: "0x8A00 \<notin> set s \<Longrightarrow> \<not> isQuotedInsult s i"
  using quote_has_iu includesStr_set includesStr_drop
  unfolding isQuotedInsult_iff by blast

lemma firstMatch_Some:
  "firstMatch n ps = Some (p, idx) \<Longrightarrow> p \<in> set ps \<and> indexOf n p = Some idx"
  by (induction ps) (auto split: option.splits)

lemma firstMatch_None: "firstMatch n ps = None \<longleftrightarrow> (\<forall>p \<in> set ps. \<not> includesStr n p)"
  by (induction ps) (auto simp: includesStr_def split: option.splits)

lemma insultPatterns_firstMatch:
  "insultPatterns n m di ps st =
     (case firstMatch n ps of
        None \<Rightarrow> st
      | Some (p, idx) \<Rightarrow>
          if isQuotedInsult n idx \<or> p \<in> set (map keyword (found st)) then st
          else st\<lparr>categoryBaseDamage := addDamage direct_insult 10 (categoryBaseDamage st),
                  categoryMbtiDamage := addDamage direct_insult 10 (categoryMbtiDamage st),
                  directInsultCount := directInsultCount st + 1,
                  hasUltraSevere := (ultraSevere di \<or> hasUltraSevere st),
                  found := found st @
                    [\<lparr>keyword = p, mbtiTypes = [m], category = direct_insult, damage = 10\<rparr>]\<rparr>)"
  by (induction ps) (auto simp: list_ex_keyword Let_def split: option.splits)

lemma categoryPatterns_firstMatch:
  "categoryPatterns n m mu c ps st =
     (case firstMatch n ps of
        None \<Rightarrow> st
      | Some (p, idx) \<Rightarrow>
          if p \<in> set (map keyword (found st)) then st
          else st\<lparr>categoryBaseDamage := addDamage c (baseSeverity c) (categoryBaseDamage st),
                  categoryMbtiDamage :=
                    addDamage c (baseSeverity c * multiplierOf mu c) (categoryMbtiDamage st),
                  found := found st @
                    [\<lparr>keyword = p, mbtiTypes = [m], category = c,
                      damage = baseSeverity c * multiplierOf mu c\<rparr>]\<rparr>)"
proof -
  have b: "baseSeverity c \<noteq> 0" by (cases c) simp_all
  show ?thesis
    by (induction ps) (auto simp: list_ex_keyword Let_def includesStr_def b split: option.splits)
qed

section \<open>The score is an integer between 0 and 100\<close>

lemma Ints_max: "(x::real) \<in> \<int> \<Longrightarrow> y \<in> \<int> \<Longrightarrow> max x y \<in> \<int>"
  by (simp add: max_def)

lemma Ints_min: "(x::real) \<in> \<int> \<Longrightarrow> y \<in> \<int> \<Longrightarrow> min x y \<in> \<int>"
  by (simp add: min_def)

lemma scoreOf_Ints: "scoreOf d a b \<in> \<int>"
  by (simp add: scoreOf_def Let_def Math_round_def Ints_max Ints_min)

lemma scoreOf_range: "0 \<le> scoreOf d a b \<and> scoreOf d a b \<le> 100"
  by (simp add: scoreOf_def Let_def)

lemma finalScore_Ints: "finalScore st a b \<in> \<int>"
proof -
  have cap: "max 0 (30 - (real (directInsultCount st) - 1) * 20) \<in> \<int>"
    by (intro Ints_max Ints_diff Ints_mult) simp_all
  have five: "(5::real) \<in> \<int>" by simp
  have mid: "max 0 (min 100 (max (scoreOf (totalDamage (categoryBaseDamage st)) a b - 10)
               (min (scoreOf (totalDamage (categoryBaseDamage st)) a b + 10)
                    (scoreOf (totalDamage (categoryMbtiDamage st)) a b)))) \<in> \<int>"
    by (intro Ints_max Ints_min Ints_diff Ints_add scoreOf_Ints) simp_all
  show ?thesis
    unfolding finalScore_def Let_def
    using cap five mid by (simp add: Ints_min)
qed

lemma finalScore_range: "0 \<le> finalScore st a b \<and> finalScore st a b \<le> 100"
  unfolding finalScore_def Let_def by (simp add: min_def max_def)

lemma score_range_all:
  "score (analyzeLocal s m) \<in> \<int> \<and> 0 \<le> score (analyzeLocal s m) \<and> score (analyzeLocal s m) \<le> 100"
  using finalScore_Ints finalScore_range by (simp add: analyzeLocal_def Let_def)

text \<open>
  C1. For every non-empty text and every one of the sixteen valid personality codes (the
  keys of \<open>MBTI_MULTIPLIERS\<close>), the score that \<open>analyzeLocal\<close> returns is an integer
  between 0 and 100.
\<close>

theorem score_integer_in_range:
  assumes "text \<noteq> []" and "targetMbti \<in> fst ` set MBTI_MULTIPLIERS"
  shows "score (analyzeLocal text targetMbti) \<in> \<int>
         \<and> 0 \<le> score (analyzeLocal text targetMbti)
         \<and> score (analyzeLocal text targetMbti) \<le> 100"
  by (rule score_range_all)

theorem score_integer_in_range_witness:
  "[0x30D0, 0x30AB] \<noteq> ([]::jsstring)
   \<and> [0x49, 0x4E, 0x46, 0x50] \<in> fst ` set MBTI_MULTIPLIERS
   \<and> score (analyzeLocal [0x30D0, 0x30AB] [0x49, 0x4E, 0x46, 0x50]) \<in> \<int>
   \<and> 0 \<le> score (analyzeLocal [0x30D0, 0x30AB] [0x49, 0x4E, 0x46, 0x50])
   \<and> score (analyzeLocal [0x30D0, 0x30AB] [0x49, 0x4E, 0x46, 0x50]) \<le> 100"
proof -
  have 1: "[0x30D0, 0x30AB] \<noteq> ([]::jsstring)" by simp
  have 2: "[0x49, 0x4E, 0x46, 0x50] \<in> fst ` set MBTI_MULTIPLIERS"
    by (simp add: MBTI_MULTIPLIERS_def)
  from score_integer_in_range [OF 1 2] 1 2 show ?thesis by blast
qed

section \<open>The personality type moves the score by at most ten points either way\<close>

lemma map_fst_addDamage:
  "map fst (addDamage c v xs) = (if c \<in> set (map fst xs) then map fst xs else map fst xs @ [c])"
  by (induction c v xs rule: addDamage.induct) auto

lemma typeFree_insultPatterns:
  "typeFree st1 = typeFree st2 \<Longrightarrow>
   typeFree (insultPatterns n m1 di ps st1) = typeFree (insultPatterns n m2 di ps st2)"
proof (induction ps)
  case Nil
  then show ?case by simp
next
  case (Cons p ps)
  then show ?case
    by (auto simp: typeFree_def list_ex_keyword map_fst_addDamage Let_def split: option.splits)
qed

lemma typeFree_insultLoop:
  "typeFree st1 = typeFree st2 \<Longrightarrow>
   typeFree (insultLoop n m1 dis st1) = typeFree (insultLoop n m2 dis st2)"
proof (induction dis arbitrary: st1 st2)
  case Nil
  then show ?case by simp
next
  case (Cons di dis)
  have "typeFree (insultPatterns n m1 di (patterns di) st1)
        = typeFree (insultPatterns n m2 di (patterns di) st2)"
    using Cons.prems by (rule typeFree_insultPatterns)
  from Cons.IH [OF this] show ?case by simp
qed

lemma typeFree_categoryPatterns:
  "typeFree st1 = typeFree st2 \<Longrightarrow>
   typeFree (categoryPatterns n m1 mu1 c ps st1) = typeFree (categoryPatterns n m2 mu2 c ps st2)"
proof (induction ps)
  case Nil
  then show ?case by simp
next
  case (Cons p ps)
  then show ?case
    by (auto simp: typeFree_def list_ex_keyword map_fst_addDamage Let_def)
qed

lemma typeFree_categoryEntries:
  "typeFree st1 = typeFree st2 \<Longrightarrow>
   typeFree (categoryEntries n m1 mu1 c es st1) = typeFree (categoryEntries n m2 mu2 c es st2)"
proof (induction es arbitrary: st1 st2)
  case Nil
  then show ?case by simp
next
  case (Cons e es)
  have "typeFree (categoryPatterns n m1 mu1 c (patterns e) st1)
        = typeFree (categoryPatterns n m2 mu2 c (patterns e) st2)"
    using Cons.prems by (rule typeFree_categoryPatterns)
  from Cons.IH [OF this] show ?case by simp
qed

lemma typeFree_categoryLoop:
  "typeFree st1 = typeFree st2 \<Longrightarrow>
   typeFree (categoryLoop n m1 mu1 cs st1) = typeFree (categoryLoop n m2 mu2 cs st2)"
proof (induction cs arbitrary: st1 st2)
  case Nil
  then show ?case by simp
next
  case (Cons ce cs)
  obtain c es where ce: "ce = (c, es)" by (cases ce)
  have "typeFree (categoryEntries n m1 mu1 c es st1)
        = typeFree (categoryEntries n m2 mu2 c es st2)"
    using Cons.prems by (rule typeFree_categoryEntries)
  from Cons.IH [OF this] show ?case by (simp add: ce)
qed

lemma typeFree_detect: "typeFree (detect n m1) = typeFree (detect n m2)"
  unfolding detect_def by (intro typeFree_categoryLoop typeFree_insultLoop) simp

lemma clamp_near_base:
  fixes b r :: real
  assumes "0 \<le> b" "b \<le> 100"
  shows "b - 10 \<le> max 0 (min 100 (max (b - 10) (min (b + 10) r)))
         \<and> max 0 (min 100 (max (b - 10) (min (b + 10) r))) \<le> b + 10"
  using assms by (simp add: max_def min_def)

lemma finalScore_spread:
  assumes "typeFree st1 = typeFree st2"
  shows "\<bar>finalScore st1 a b - finalScore st2 a b\<bar> \<le> 20"
proof -
  define bs where "bs = scoreOf (totalDamage (categoryBaseDamage st1)) a b"
  define s1 where "s1 = max 0 (min 100 (max (bs - 10) (min (bs + 10) (scoreOf (totalDamage (categoryMbtiDamage st1)) a b))))"
  define s2 where "s2 = max 0 (min 100 (max (bs - 10) (min (bs + 10) (scoreOf (totalDamage (categoryMbtiDamage st2)) a b))))"
  have eqs: "categoryBaseDamage st2 = categoryBaseDamage st1"
    "directInsultCount st2 = directInsultCount st1" "hasUltraSevere st2 = hasUltraSevere st1"
    using assms by (simp_all add: typeFree_def)
  have bs: "0 \<le> bs" "bs \<le> 100" using scoreOf_range by (simp_all add: bs_def)
  have b1: "bs - 10 \<le> s1" "s1 \<le> bs + 10" using clamp_near_base [OF bs] by (simp_all add: s1_def)
  have b2: "bs - 10 \<le> s2" "s2 \<le> bs + 10" using clamp_near_base [OF bs] by (simp_all add: s2_def)
  have f1: "finalScore st1 a b = (if hasUltraSevere st1 then min s1 5
      else if directInsultCount st1 > 0 then min s1 (max 0 (30 - (real (directInsultCount st1) - 1) * 20)) else s1)"
    by (simp add: finalScore_def Let_def s1_def bs_def)
  have f2: "finalScore st2 a b = (if hasUltraSevere st1 then min s2 5
      else if directInsultCount st1 > 0 then min s2 (max 0 (30 - (real (directInsultCount st1) - 1) * 20)) else s2)"
    by (simp add: finalScore_def Let_def s2_def bs_def eqs)
  have d: "\<bar>s1 - s2\<bar> \<le> 20" using b1 b2 by linarith
  have lip: "\<bar>min s1 c - min s2 c\<bar> \<le> 20" for c using d by linarith
  show ?thesis
    unfolding f1 f2 using d lip by simp
qed

lemma pressure_typeFree:
  "typeFree st1 = typeFree st2 \<Longrightarrow> pressureCorrection n st1 = pressureCorrection n st2"
  by (simp add: pressureCorrection_def typeFree_def Let_def)

lemma score_spread_all:
  "\<bar>score (analyzeLocal s m1) - score (analyzeLocal s m2)\<bar> \<le> 20"
proof -
  have tf: "typeFree (detect (normalizeText s) m1) = typeFree (detect (normalizeText s) m2)"
    by (rule typeFree_detect)
  show ?thesis
    using finalScore_spread [OF tf] pressure_typeFree [OF tf]
    by (simp add: analyzeLocal_def Let_def)
qed

text \<open>
  C5. For a fixed text and any two valid personality types, the two scores of
  \<open>analyzeLocal\<close> differ by at most 20.
\<close>

theorem score_spread:
  assumes "t1 \<in> fst ` set MBTI_MULTIPLIERS" and "t2 \<in> fst ` set MBTI_MULTIPLIERS"
  shows "\<bar>score (analyzeLocal text t1) - score (analyzeLocal text t2)\<bar> \<le> 20"
  by (rule score_spread_all)

theorem score_spread_witness:
  "[0x49, 0x4E, 0x46, 0x50] \<in> fst ` set MBTI_MULTIPLIERS
   \<and> [0x45, 0x53, 0x54, 0x4A] \<in> fst ` set MBTI_MULTIPLIERS
   \<and> \<bar>score (analyzeLocal [0x73FE, 0x5B9F, 0x3092, 0x898B, 0x308D] [0x49, 0x4E, 0x46, 0x50])
       - score (analyzeLocal [0x73FE, 0x5B9F, 0x3092, 0x898B, 0x308D] [0x45, 0x53, 0x54, 0x4A])\<bar> \<le> 20"
proof -
  have 1: "[0x49, 0x4E, 0x46, 0x50] \<in> fst ` set MBTI_MULTIPLIERS"
    by (simp add: MBTI_MULTIPLIERS_def)
  have 2: "[0x45, 0x53, 0x54, 0x4A] \<in> fst ` set MBTI_MULTIPLIERS"
    by (simp add: MBTI_MULTIPLIERS_def)
  from score_spread [OF 1 2] 1 2 show ?thesis by blast
qed

section \<open>Every phrase is reported once\<close>

lemma found_insultPatterns:
  "found (insultPatterns n m di ps st) = found st \<or>
   (\<exists>p idx. firstMatch n ps = Some (p, idx) \<and> p \<notin> set (map keyword (found st))
      \<and> found (insultPatterns n m di ps st) =
          found st @ [\<lparr>keyword = p, mbtiTypes = [m], category = direct_insult, damage = 10\<rparr>])"
  by (auto simp: insultPatterns_firstMatch split: option.splits)

lemma found_categoryPatterns:
  "found (categoryPatterns n m mu c ps st) = found st \<or>
   (\<exists>p idx. firstMatch n ps = Some (p, idx) \<and> p \<notin> set (map keyword (found st))
      \<and> found (categoryPatterns n m mu c ps st) =
          found st @ [\<lparr>keyword = p, mbtiTypes = [m], category = c,
                       damage = baseSeverity c * multiplierOf mu c\<rparr>])"
  by (auto simp: categoryPatterns_firstMatch split: option.splits)

lemma goodFound_mono: "goodFound n E fs \<Longrightarrow> E \<subseteq> E' \<Longrightarrow> goodFound n E' fs"
  unfolding goodFound_def by blast

lemma goodFound_insultPatterns:
  assumes "goodFound n E (found st)" "di \<in> E"
  shows "goodFound n E (found (insultPatterns n m di (patterns di) st))"
  using found_insultPatterns [of n m di "patterns di" st] assms
  unfolding goodFound_def by (elim disjE exE conjE) (simp, force)

lemma goodFound_insultLoop:
  assumes "goodFound n E (found st)" "set dis \<subseteq> E"
  shows "goodFound n E (found (insultLoop n m dis st))"
  using assms
proof (induction dis arbitrary: st)
  case Nil
  then show ?case by simp
next
  case (Cons di dis)
  then have "goodFound n E (found (insultPatterns n m di (patterns di) st))"
    by (intro goodFound_insultPatterns) simp_all
  with Cons show ?case by simp
qed

lemma goodFound_categoryPatterns:
  assumes "goodFound n E (found st)" "e \<in> E"
  shows "goodFound n E (found (categoryPatterns n m mu c (patterns e) st))"
  using found_categoryPatterns [of n m mu c "patterns e" st] assms
  unfolding goodFound_def by (elim disjE exE conjE) (simp, force)

lemma goodFound_categoryEntries:
  assumes "goodFound n E (found st)" "set es \<subseteq> E"
  shows "goodFound n E (found (categoryEntries n m mu c es st))"
  using assms
proof (induction es arbitrary: st)
  case Nil
  then show ?case by simp
next
  case (Cons e es)
  then have "goodFound n E (found (categoryPatterns n m mu c (patterns e) st))"
    by (intro goodFound_categoryPatterns) simp_all
  with Cons show ?case by simp
qed

lemma goodFound_categoryLoop:
  assumes "goodFound n E (found st)" "set (concat (map snd cs)) \<subseteq> E"
  shows "goodFound n E (found (categoryLoop n m mu cs st))"
  using assms
proof (induction cs arbitrary: st)
  case Nil
  then show ?case by simp
next
  case (Cons ce cs)
  obtain c es where ce: "ce = (c, es)" by (cases ce)
  from Cons.prems have "goodFound n E (found (categoryEntries n m mu c es st))"
    by (intro goodFound_categoryEntries) (simp_all add: ce)
  with Cons show ?case by (simp add: ce)
qed

lemma goodFound_detect: "goodFound n (set allEntries) (found (detect n m))"
  unfolding detect_def
  by (intro goodFound_categoryLoop goodFound_insultLoop)
     (simp_all add: goodFound_def scan0_def allEntries_def)

text \<open>
  C9. The \<open>ngWords\<close> of one call of \<open>analyzeLocal\<close> hold every phrase at most once, and
  every phrase in them is the first matching phrase of some entry: within an entry the
  first phrase that occurs wins, and a phrase already recorded, in either phase, is not
  added again.
\<close>

theorem findings_unique:
  "distinct (map ng_keyword (ngWords (analyzeLocal text targetMbti)))
   \<and> (\<forall>w \<in> set (ngWords (analyzeLocal text targetMbti)).
        \<exists>e \<in> set allEntries.
          map_option fst (firstMatch (normalizeText text) (patterns e)) = Some (ng_keyword w))"
proof -
  have g: "goodFound (normalizeText text) (set allEntries) (found (detect (normalizeText text) targetMbti))"
    by (rule goodFound_detect)
  have k: "map ng_keyword (cleanFound fs) = map keyword fs" for fs
    by (simp add: cleanFound_def comp_def)
  have w: "w \<in> set (cleanFound fs) \<Longrightarrow> \<exists>f \<in> set fs. ng_keyword w = keyword f" for w fs
    by (auto simp: cleanFound_def)
  have r: "ngWords (analyzeLocal text targetMbti)
           = cleanFound (found (detect (normalizeText text) targetMbti))"
    by (simp add: analyzeLocal_def Let_def)
  show ?thesis
    unfolding r using g w unfolding goodFound_def k by metis
qed

theorem findings_unique_witness:
  "ngWords (analyzeLocal [0x30D0, 0x30AB, 0x30D0, 0x30AB] [0x49, 0x4E, 0x46, 0x50])
     = [\<lparr>ng_keyword = [0x30D0, 0x30AB], ng_mbtiTypes = [[0x49, 0x4E, 0x46, 0x50]]\<rparr>]
   \<and> distinct (map ng_keyword (ngWords (analyzeLocal [0x30D0, 0x30AB, 0x30D0, 0x30AB] [0x49, 0x4E, 0x46, 0x50])))
   \<and> (\<exists>e \<in> set allEntries.
         map_option fst (firstMatch (normalizeText [0x30D0, 0x30AB, 0x30D0, 0x30AB]) (patterns e))
           = Some [0x30D0, 0x30AB])"
proof -
  have r: "ngWords (analyzeLocal [0x30D0, 0x30AB, 0x30D0, 0x30AB] [0x49, 0x4E, 0x46, 0x50])
     = [\<lparr>ng_keyword = [0x30D0, 0x30AB], ng_mbtiTypes = [[0x49, 0x4E, 0x46, 0x50]]\<rparr>]"
    by code_simp
  from findings_unique [of "[0x30D0, 0x30AB, 0x30D0, 0x30AB]" "[0x49, 0x4E, 0x46, 0x50]"]
  show ?thesis unfolding r by simp
qed

section \<open>Evaluating scores\<close>

lemma Math_pow_0: "Math_pow 0 1.3 = 0"
  by (simp add: Math_pow_def)

lemma scoreOf_ge:
  assumes "Math_pow d 1.3 \<le> U" "real_of_int k \<le> 100 - (U * 2 + a + b) + 1 / 2" "k \<le> 100"
  shows "of_int k \<le> scoreOf d a b"
proof -
  have "real_of_int k \<le> 100 - (Math_pow d 1.3 * 2 + a + b) + 1 / 2"
    using assms(1,2) by linarith
  then have "k \<le> \<lfloor>100 - (Math_pow d 1.3 * 2 + a + b) + 1 / 2\<rfloor>"
    by (simp only: le_floor_iff)
  then have "real_of_int k \<le> Math_round (100 - (Math_pow d 1.3 * 2 + a + b))"
    unfolding Math_round_def by (simp only: of_int_le_iff)
  moreover have "real_of_int k \<le> 100" using assms(3) by simp
  ultimately show ?thesis
    unfolding scoreOf_def Let_def by simp
qed

lemma scoreOf_le:
  assumes "L \<le> Math_pow d 1.3" "100 - (L * 2 + a + b) + 1 / 2 < real_of_int k + 1" "0 \<le> k"
  shows "scoreOf d a b \<le> of_int k"
proof -
  have "100 - (Math_pow d 1.3 * 2 + a + b) + 1 / 2 < real_of_int k + 1"
    using assms(1,2) by linarith
  then have "\<lfloor>100 - (Math_pow d 1.3 * 2 + a + b) + 1 / 2\<rfloor> \<le> k"
    by (simp add: floor_le_iff)
  then have "Math_round (100 - (Math_pow d 1.3 * 2 + a + b)) \<le> real_of_int k"
    unfolding Math_round_def by (simp only: of_int_le_iff)
  moreover have "0 \<le> real_of_int k" using assms(3) by simp
  ultimately show ?thesis
    unfolding scoreOf_def Let_def by simp
qed

lemma scoreOf_0: "scoreOf 0 0 0 = 100"
proof -
  have "of_int 100 \<le> scoreOf 0 0 0"
    by (rule scoreOf_ge [where U = 0]) (simp_all add: Math_pow_0)
  moreover have "scoreOf 0 0 0 \<le> 100" using scoreOf_range by blast
  ultimately show ?thesis by simp
qed

lemma finalScore_clean:
  assumes "categoryBaseDamage st = []" "categoryMbtiDamage st = []"
    "directInsultCount st = 0" "\<not> hasUltraSevere st"
  shows "finalScore st 0 0 = 100"
  by (simp add: finalScore_def Let_def assms totalDamage_def scoreOf_0)

section \<open>Validation is the handler's\<close>

lemma analyzeLocal_empty_eval:
  "score (analyzeLocal [] [0x41, 0x42, 0x43, 0x44]) = 100"
proof -
  have n: "normalizeText [] = []" by code_simp
  have t: "toneCorrection [] [] = 0" by code_simp
  have d: "detect [] [0x41, 0x42, 0x43, 0x44] = scan0" by code_simp
  have p: "pressureCorrection [] scan0 = 0" by code_simp
  have "score (analyzeLocal [] [0x41, 0x42, 0x43, 0x44]) = finalScore scan0 0 0"
    by (simp only: analyzeLocal_def Let_def n t d p analysis.simps)
  also have "\<dots> = 100" by (rule finalScore_clean) (simp_all add: scan0_def)
  finally show ?thesis .
qed

text \<open>
  The claim C2 as stated fails: \<open>analyzeLocal\<close> called with the empty text and the code
  \<open>ABCD\<close> returns a result, the score 100 with no findings.
\<close>

theorem analyzeLocal_no_validation:
  "analyzeLocal [] [0x41, 0x42, 0x43, 0x44] = \<lparr>score = 100, ngWords = []\<rparr>"
proof -
  have "ngWords (analyzeLocal [] [0x41, 0x42, 0x43, 0x44]) = []" by code_simp
  with analyzeLocal_empty_eval show ?thesis
    by (cases "analyzeLocal [] [0x41, 0x42, 0x43, 0x44]") simp
qed

lemma trim_blank: "list_all isWhiteSpace s \<Longrightarrow> trim s = []"
proof -
  assume "list_all isWhiteSpace s"
  then have dw: "dropWhile isWhiteSpace s = []" by (induction s) auto
  show ?thesis unfolding trim_def dw by simp
qed

text \<open>
  C2, amended. The rejection of invalid input is the request handler's, not that of
  \<open>analyzeLocal\<close>: for a POST request the handler answers with status 400, without
  calling \<open>analyzeLocal\<close>, whenever \<open>text\<close> is missing, empty or made of white space
  only, and whenever \<open>targetMbti\<close> is missing or does not match one of the sixteen
  four-letter codes, in either case of the letters.
\<close>

theorem handler_rejects:
  assumes "http_method req = POST"
    and "(case body_text req of None \<Rightarrow> True | Some text \<Rightarrow> list_all isWhiteSpace text)
         \<or> (case body_targetMbti req of None \<Rightarrow> True | Some targetMbti \<Rightarrow> \<not> isMbtiCode targetMbti)"
  shows "handler useAI req = Status400"
proof -
  have m: "http_method req \<noteq> OPTIONS" using assms(1) by (simp add: POST_def OPTIONS_def)
  show ?thesis
    using assms m by (auto simp: handler_def trim_blank split: option.splits)
qed

theorem handler_rejects_witness:
  "handler False \<lparr>http_method = POST, body_text = Some [0x20, 0x3000],
                   body_targetMbti = Some [0x49, 0x4E, 0x46, 0x50]\<rparr> = Status400
   \<and> handler False \<lparr>http_method = POST, body_text = Some [0x30D0, 0x30AB],
                   body_targetMbti = Some [0x41, 0x42, 0x43, 0x44]\<rparr> = Status400"
proof -
  have 1: "list_all isWhiteSpace [0x20, 0x3000]" by code_simp
  have 2: "\<not> isMbtiCode [0x41, 0x42, 0x43, 0x44]" by code_simp
  have a: "handler False \<lparr>http_method = POST, body_text = Some [0x20, 0x3000],
                   body_targetMbti = Some [0x49, 0x4E, 0x46, 0x50]\<rparr> = Status400"
    by (rule handler_rejects) (use 1 in simp_all)
  have b: "handler False \<lparr>http_method = POST, body_text = Some [0x30D0, 0x30AB],
                   body_targetMbti = Some [0x41, 0x42, 0x43, 0x44]\<rparr> = Status400"
    by (rule handler_rejects) (use 2 in simp_all)
  from a b show ?thesis by simp
qed

section \<open>A type outside the table\<close>









lemma finalScore_agnostic:
  assumes "categoryMbtiDamage st = categoryBaseDamage st"
  shows "finalScore st a b = baseOnlyScore st a b"
proof -
  define bs where "bs = scoreOf (totalDamage (categoryBaseDamage st)) a b"
  have r: "0 \<le> bs" "bs \<le> 100" using scoreOf_range by (simp_all add: bs_def)
  then have m: "max 0 (min 100 (max (bs - 10) (min (bs + 10) bs))) = bs" by simp
  show ?thesis
    unfolding finalScore_def baseOnlyScore_def Let_def assms
    unfolding bs_def [symmetric] m by simp
qed





section \<open>Insults in a quotation context\<close>

lemma insultPatterns_quoted:
  assumes "firstMatch n ps = Some (p, idx)" "qp \<in> set QUOTE_PATTERNS"
    "includesStr (drop idx n) qp"
  shows "insultPatterns n m di ps st = st"
proof -
  have "isQuotedInsult n idx" using assms(2,3) unfolding isQuotedInsult_iff by blast
  then show ?thesis by (simp add: insultPatterns_firstMatch assms(1))
qed

text \<open>
  C7. For every personality type, the text \<open>baka-tte-iwareta\<close> (code units 30D0 30AB 3063
  3066 8A00 308F 308C 305F), which reports an insult, gives no finding at all, hence no
  direct insult, and the text \<open>baka\<close> (30D0 30AB) alone gives exactly one. In general the
  loop over an insult entry leaves the state unchanged when a quotation context occurs in
  the normalised text from the start of the first match on.
\<close>

theorem quote_suppression:
  "ngWords (analyzeLocal [0x30D0, 0x30AB, 0x3063, 0x3066, 0x8A00, 0x308F, 0x308C, 0x305F] targetMbti) = []
   \<and> filter (\<lambda>f. category f = direct_insult)
        (found (detect (normalizeText [0x30D0, 0x30AB, 0x3063, 0x3066, 0x8A00, 0x308F, 0x308C, 0x305F]) targetMbti)) = []
   \<and> ngWords (analyzeLocal [0x30D0, 0x30AB] targetMbti)
       = [\<lparr>ng_keyword = [0x30D0, 0x30AB], ng_mbtiTypes = [targetMbti]\<rparr>]
   \<and> map keyword (filter (\<lambda>f. category f = direct_insult)
        (found (detect (normalizeText [0x30D0, 0x30AB]) targetMbti))) = [[0x30D0, 0x30AB]]
   \<and> (firstMatch normalized (patterns di) = Some (p, idx) \<and> qp \<in> set QUOTE_PATTERNS
        \<and> includesStr (drop idx normalized) qp \<longrightarrow>
        insultPatterns normalized targetMbti di (patterns di) st = st)"
proof -
  have 1: "ngWords (analyzeLocal [0x30D0, 0x30AB, 0x3063, 0x3066, 0x8A00, 0x308F, 0x308C, 0x305F] targetMbti) = []"
    by code_simp
  have 2: "filter (\<lambda>f. category f = direct_insult)
        (found (detect (normalizeText [0x30D0, 0x30AB, 0x3063, 0x3066, 0x8A00, 0x308F, 0x308C, 0x305F]) targetMbti)) = []"
    by code_simp
  have 3: "ngWords (analyzeLocal [0x30D0, 0x30AB] targetMbti)
       = [\<lparr>ng_keyword = [0x30D0, 0x30AB], ng_mbtiTypes = [targetMbti]\<rparr>]"
    by code_simp
  have 4: "map keyword (filter (\<lambda>f. category f = direct_insult)
        (found (detect (normalizeText [0x30D0, 0x30AB]) targetMbti))) = [[0x30D0, 0x30AB]]"
    by code_simp
  show ?thesis
    using 1 2 3 4 insultPatterns_quoted by blast
qed

theorem quote_suppression_witness:
  "firstMatch [0x30D0, 0x30AB, 0x3063, 0x3066, 0x8A00, 0x308F, 0x308C, 0x305F]
       (patterns (hd DIRECT_INSULTS)) = Some ([0x30D0, 0x30AB], 0)
   \<and> [0x3063, 0x3066, 0x8A00, 0x308F, 0x308C, 0x305F] \<in> set QUOTE_PATTERNS
   \<and> includesStr (drop 0 [0x30D0, 0x30AB, 0x3063, 0x3066, 0x8A00, 0x308F, 0x308C, 0x305F])
         [0x3063, 0x3066, 0x8A00, 0x308F, 0x308C, 0x305F]
   \<and> insultPatterns [0x30D0, 0x30AB, 0x3063, 0x3066, 0x8A00, 0x308F, 0x308C, 0x305F]
         [0x49, 0x4E, 0x46, 0x50] (hd DIRECT_INSULTS) (patterns (hd DIRECT_INSULTS)) scan0 = scan0
   \<and> ngWords (analyzeLocal [0x30D0, 0x30AB, 0x3063, 0x3066, 0x8A00, 0x308F, 0x308C, 0x305F]
         [0x49, 0x4E, 0x46, 0x50]) = []
   \<and> ngWords (analyzeLocal [0x30D0, 0x30AB] [0x49, 0x4E, 0x46, 0x50])
       = [\<lparr>ng_keyword = [0x30D0, 0x30AB], ng_mbtiTypes = [[0x49, 0x4E, 0x46, 0x50]]\<rparr>]"
proof -
  have 1: "firstMatch [0x30D0, 0x30AB, 0x3063, 0x3066, 0x8A00, 0x308F, 0x308C, 0x305F]
       (patterns (hd DIRECT_INSULTS)) = Some ([0x30D0, 0x30AB], 0)"
    by code_simp
  have 2: "[0x3063, 0x3066, 0x8A00, 0x308F, 0x308C, 0x305F] \<in> set QUOTE_PATTERNS"
    by code_simp
  have 3: "includesStr (drop 0 [0x30D0, 0x30AB, 0x3063, 0x3066, 0x8A00, 0x308F, 0x308C, 0x305F])
         [0x3063, 0x3066, 0x8A00, 0x308F, 0x308C, 0x305F]"
    by code_simp
  from quote_suppression [of "[0x49, 0x4E, 0x46, 0x50]"
      "[0x30D0, 0x30AB, 0x3063, 0x3066, 0x8A00, 0x308F, 0x308C, 0x305F]" "hd DIRECT_INSULTS"
      "[0x30D0, 0x30AB]" 0 "[0x3063, 0x3066, 0x8A00, 0x308F, 0x308C, 0x305F]" scan0] 1 2 3
  show ?thesis by blast
qed

section \<open>Bounds on the power 1.3\<close>

lemma root10_power10:
  fixes y :: real
  assumes "0 < y"
  shows "(y ^ 10) powr (1 / 10) = y"
proof -
  have "y ^ 10 = y powr (real 10)" using assms by (rule powr_realpow [symmetric])
  then have "(y ^ 10) powr (1 / 10) = y powr (real 10 * (1 / 10))" by (simp only: powr_powr)
  also have "\<dots> = y" using assms by simp
  finally show ?thesis .
qed

lemma powr13_root:
  fixes x :: real
  assumes "0 < x"
  shows "x powr 1.3 = (x ^ 13) powr (1 / 10)"
proof -
  have "x ^ 13 = x powr (real 13)" using assms by (rule powr_realpow [symmetric])
  then have "(x ^ 13) powr (1 / 10) = x powr (real 13 * (1 / 10))" by (simp only: powr_powr)
  also have "\<dots> = x powr 1.3" by simp
  finally show ?thesis by simp
qed

lemma Math_pow_le:
  assumes "0 \<le> x" "0 \<le> y" "x ^ 13 \<le> y ^ 10"
  shows "Math_pow x 1.3 \<le> y"
proof (cases "x = 0")
  case True
  then show ?thesis using assms by (simp add: Math_pow_def)
next
  case False
  then have x: "0 < x" using assms by simp
  have y: "0 < y"
  proof (rule ccontr)
    assume "\<not> 0 < y"
    then have "y = 0" using assms by simp
    then have "x ^ 13 \<le> 0" using assms by simp
    then show False using x by (simp add: not_le)
  qed
  have "x powr 1.3 = (x ^ 13) powr (1 / 10)" using x by (rule powr13_root)
  also have "\<dots> \<le> (y ^ 10) powr (1 / 10)"
    using assms x by (intro powr_mono2) simp_all
  also have "\<dots> = y" using y by (rule root10_power10)
  finally show ?thesis by (simp add: Math_pow_def)
qed

lemma Math_pow_ge:
  assumes "0 \<le> x" "0 \<le> y" "y ^ 10 \<le> x ^ 13"
  shows "y \<le> Math_pow x 1.3"
proof (cases "y = 0")
  case True
  then show ?thesis by (simp add: Math_pow_def)
next
  case False
  then have y: "0 < y" using assms by simp
  have x: "0 < x"
  proof (rule ccontr)
    assume "\<not> 0 < x"
    then have "x = 0" using assms by simp
    then have "y ^ 10 \<le> 0" using assms by simp
    then show False using y by (simp add: not_le)
  qed
  have "y = (y ^ 10) powr (1 / 10)" using y by (rule root10_power10 [symmetric])
  also have "\<dots> \<le> (x ^ 13) powr (1 / 10)"
    using assms y by (intro powr_mono2) simp_all
  also have "\<dots> = x powr 1.3" using x by (rule powr13_root [symmetric])
  finally show ?thesis by (simp add: Math_pow_def)
qed

section \<open>The insult count and the ultra-severe flag\<close>

lemma categoryPatterns_insult_fields:
  "directInsultCount (categoryPatterns n m mu c ps st) = directInsultCount st
   \<and> hasUltraSevere (categoryPatterns n m mu c ps st) = hasUltraSevere st"
  by (simp add: categoryPatterns_firstMatch split: option.splits)

lemma categoryEntries_insult_fields:
  "directInsultCount (categoryEntries n m mu c es st) = directInsultCount st
   \<and> hasUltraSevere (categoryEntries n m mu c es st) = hasUltraSevere st"
  by (induction es arbitrary: st) (simp_all add: categoryPatterns_insult_fields)

lemma categoryLoop_insult_fields:
  "directInsultCount (categoryLoop n m mu cs st) = directInsultCount st
   \<and> hasUltraSevere (categoryLoop n m mu cs st) = hasUltraSevere st"
proof (induction cs arbitrary: st)
  case Nil
  then show ?case by simp
next
  case (Cons ce cs)
  obtain c es where ce: "ce = (c, es)" by (cases ce)
  show ?case by (simp add: ce Cons.IH categoryEntries_insult_fields)
qed

lemma insultPatterns_step:
  assumes "set (map keyword (found st)) \<inter> set (patterns di) = {}"
  shows "directInsultCount (insultPatterns n m di (patterns di) st)
           = directInsultCount st + (if insultHit n di then 1 else 0)"
    and "hasUltraSevere (insultPatterns n m di (patterns di) st)
           = (hasUltraSevere st \<or> (ultraSevere di \<and> insultHit n di))"
    and "set (map keyword (found (insultPatterns n m di (patterns di) st)))
           \<subseteq> set (map keyword (found st)) \<union> set (patterns di)"
proof -
  have new: "p \<notin> set (map keyword (found st))"
    if "firstMatch n (patterns di) = Some (p, idx)" for p idx
    using firstMatch_Some [OF that] assms by blast
  show "directInsultCount (insultPatterns n m di (patterns di) st)
           = directInsultCount st + (if insultHit n di then 1 else 0)"
    using new by (auto simp: insultPatterns_firstMatch insultHit_def split: option.splits)
  show "hasUltraSevere (insultPatterns n m di (patterns di) st)
           = (hasUltraSevere st \<or> (ultraSevere di \<and> insultHit n di))"
    using new by (auto simp: insultPatterns_firstMatch insultHit_def split: option.splits)
  show "set (map keyword (found (insultPatterns n m di (patterns di) st)))
           \<subseteq> set (map keyword (found st)) \<union> set (patterns di)"
    using firstMatch_Some [of n "patterns di"]
    by (auto simp: insultPatterns_firstMatch split: option.splits)
qed

lemma insultLoop_fields:
  assumes "distinct (allPhrases dis)"
    and "set (map keyword (found st)) \<inter> set (allPhrases dis) = {}"
  shows "directInsultCount (insultLoop n m dis st)
           = directInsultCount st + length (filter (insultHit n) dis)
         \<and> hasUltraSevere (insultLoop n m dis st)
           = (hasUltraSevere st \<or> (\<exists>di \<in> set dis. ultraSevere di \<and> insultHit n di))"
  using assms
proof (induction dis arbitrary: st)
  case Nil
  then show ?case by simp
next
  case (Cons di dis)
  let ?st = "insultPatterns n m di (patterns di) st"
  have d: "distinct (allPhrases dis)" "set (patterns di) \<inter> set (allPhrases dis) = {}"
    using Cons.prems(1) by (auto simp: allPhrases_def)
  have k: "set (map keyword (found st)) \<inter> set (patterns di) = {}"
    "set (map keyword (found st)) \<inter> set (allPhrases dis) = {}"
    using Cons.prems(2) by (auto simp: allPhrases_def)
  note step = insultPatterns_step [OF k(1), of n m]
  have "set (map keyword (found ?st)) \<inter> set (allPhrases dis) = {}"
    using step(3) d(2) k(2) by blast
  from Cons.IH [OF d(1) this] step(1,2) show ?case by auto
qed

lemma insult_phrases_distinct: "distinct (allPhrases DIRECT_INSULTS)"
  by code_simp

lemma detect_insults:
  "directInsultCount (detect n m) = length (filter (insultHit n) DIRECT_INSULTS)"
  "hasUltraSevere (detect n m) = (\<exists>di \<in> set DIRECT_INSULTS. ultraSevere di \<and> insultHit n di)"
  using insultLoop_fields [OF insult_phrases_distinct, of scan0 n m]
  by (simp_all add: detect_def categoryLoop_insult_fields scan0_def)

section \<open>The caps\<close>

lemma finalScore_ultra: "hasUltraSevere st \<Longrightarrow> finalScore st a b \<le> 5"
  by (simp add: finalScore_def Let_def)

lemma finalScore_cap:
  assumes "\<not> hasUltraSevere st" "0 < directInsultCount st"
  shows "finalScore st a b \<le> max 0 (30 - (real (directInsultCount st) - 1) * 20)"
  using assms by (simp add: finalScore_def Let_def)

lemma finalScore_count:
  assumes "k \<le> directInsultCount st" "1 \<le> k"
  shows "finalScore st a b \<le> max 5 (30 - (real k - 1) * 20)"
proof (cases "hasUltraSevere st")
  case True
  have "finalScore st a b \<le> 5" using True by (rule finalScore_ultra)
  then show ?thesis by (simp add: le_max_iff_disj)
next
  case False
  have "finalScore st a b \<le> max 0 (30 - (real (directInsultCount st) - 1) * 20)"
    using assms False by (intro finalScore_cap) simp_all
  moreover have "real k \<le> real (directInsultCount st)" using assms(1) by simp
  ultimately show ?thesis by (auto simp: max_def split: if_splits)
qed

lemma score_analyzeLocal:
  "score (analyzeLocal s m) =
     finalScore (detect (normalizeText s) m) (toneCorrection s (normalizeText s))
       (pressureCorrection (normalizeText s) (detect (normalizeText s) m))"
  by (simp add: analyzeLocal_def Let_def)

text \<open>
  C3, amended. For every personality type, a text whose normalised form contains a phrase
  of an entry flagged \<open>ultraSevere\<close> scores at most 5, provided the match is not in a
  quotation context: no quotation pattern occurs in the normalised text from the start of
  the first occurrence of the first listed phrase of that entry that occurs at all.
\<close>

theorem ultra_severe_cap:
  assumes "di \<in> set DIRECT_INSULTS" and "ultraSevere di"
    and "firstMatch (normalizeText text) (patterns di) = Some (p, idx)"
    and "\<not> isQuotedInsult (normalizeText text) idx"
  shows "score (analyzeLocal text targetMbti) \<le> 5"
proof -
  have "insultHit (normalizeText text) di" using assms(3,4) by (simp add: insultHit_def)
  then have "hasUltraSevere (detect (normalizeText text) targetMbti)"
    using assms(1,2) unfolding detect_insults by blast
  from finalScore_ultra [OF this] show ?thesis by (simp add: score_analyzeLocal)
qed

theorem ultra_severe_cap_witness:
  "hd (drop 3 DIRECT_INSULTS) \<in> set DIRECT_INSULTS \<and> ultraSevere (hd (drop 3 DIRECT_INSULTS))
   \<and> firstMatch (normalizeText [0x6B7B, 0x306D]) (patterns (hd (drop 3 DIRECT_INSULTS)))
       = Some ([0x6B7B, 0x306D], 0)
   \<and> \<not> isQuotedInsult (normalizeText [0x6B7B, 0x306D]) 0
   \<and> score (analyzeLocal [0x6B7B, 0x306D] [0x49, 0x4E, 0x46, 0x50]) \<le> 5"
proof -
  have 1: "hd (drop 3 DIRECT_INSULTS) \<in> set DIRECT_INSULTS" by code_simp
  have 2: "ultraSevere (hd (drop 3 DIRECT_INSULTS))" by code_simp
  have 3: "firstMatch (normalizeText [0x6B7B, 0x306D]) (patterns (hd (drop 3 DIRECT_INSULTS)))
       = Some ([0x6B7B, 0x306D], 0)" by code_simp
  have 4: "\<not> isQuotedInsult (normalizeText [0x6B7B, 0x306D]) 0" by code_simp
  from ultra_severe_cap [OF 1 2 3 4] 1 2 3 4 show ?thesis by blast
qed

text \<open>
  The claim C3 as stated fails: the text \<open>shine-tte-iwareta\<close> (6B7B 306D 3063 3066 8A00
  308F 308C 305F) contains the ultra-severe phrase 6B7B 306D in a quotation context and
  scores 100.
\<close>

theorem ultra_severe_quoted_scores_100:
  "[0x6B7B, 0x306D] \<in> set (patterns (hd (drop 3 DIRECT_INSULTS)))
   \<and> ultraSevere (hd (drop 3 DIRECT_INSULTS))
   \<and> includesStr (normalizeText [0x6B7B, 0x306D, 0x3063, 0x3066, 0x8A00, 0x308F, 0x308C, 0x305F])
        [0x6B7B, 0x306D]
   \<and> score (analyzeLocal [0x6B7B, 0x306D, 0x3063, 0x3066, 0x8A00, 0x308F, 0x308C, 0x305F]
        [0x49, 0x4E, 0x46, 0x50]) = 100"
proof -
  let ?t = "[0x6B7B, 0x306D, 0x3063, 0x3066, 0x8A00, 0x308F, 0x308C, 0x305F] :: jsstring"
  have 1: "[0x6B7B, 0x306D] \<in> set (patterns (hd (drop 3 DIRECT_INSULTS)))" by code_simp
  have 2: "ultraSevere (hd (drop 3 DIRECT_INSULTS))" by code_simp
  have 3: "includesStr (normalizeText ?t) [0x6B7B, 0x306D]" by code_simp
  have n: "normalizeText ?t = ?t" by code_simp
  have d: "detect ?t [0x49, 0x4E, 0x46, 0x50] = scan0" by code_simp
  have t: "toneCorrection ?t ?t = 0" by code_simp
  have p: "pressureCorrection ?t scan0 = 0" by code_simp
  have "score (analyzeLocal ?t [0x49, 0x4E, 0x46, 0x50]) = finalScore scan0 0 0"
    by (simp only: score_analyzeLocal n d t p)
  also have "\<dots> = 100" by (rule finalScore_clean) (simp_all add: scan0_def)
  finally show ?thesis using 1 2 3 by blast
qed

section \<open>The cap of the insult count\<close>

lemma insult_phrases_normal:
  "\<forall>p \<in> set (allPhrases DIRECT_INSULTS). normalizeText p = p \<and> 0x8A00 \<notin> set p"
  by code_simp

lemma insult_phrase_facts:
  assumes "di \<in> set DIRECT_INSULTS" "p \<in> set (patterns di)"
  shows "normalizeText p = p" "0x8A00 \<notin> set p"
proof -
  have "p \<in> set (allPhrases DIRECT_INSULTS)" using assms by (auto simp: allPhrases_def)
  with insult_phrases_normal show "normalizeText p = p" "0x8A00 \<notin> set p" by blast+
qed

lemma normalizeText_append: "normalizeText (a @ b) = normalizeText a @ normalizeText b"
  by (simp add: normalizeText_def toLowerCase_def Let_def)

lemma insultHit_unquoted:
  assumes "p \<in> set (patterns di)" "includesStr n p" "0x8A00 \<notin> set n"
  shows "insultHit n di"
proof -
  have "firstMatch n (patterns di) \<noteq> None" using assms(1,2) by (auto simp: firstMatch_None)
  then obtain q idx where "firstMatch n (patterns di) = Some (q, idx)" by auto
  then show ?thesis using no_iu_not_quoted [OF assms(3)] by (simp add: insultHit_def)
qed

lemma includesStr_appendI: "includesStr (a @ p @ b) p"
  unfolding includesStr_iff by blast

lemma filter_two:
  assumes "x \<in> set xs" "y \<in> set xs" "x \<noteq> y" "P x" "P y"
  shows "2 \<le> length (filter P xs)"
proof -
  have "{x, y} \<subseteq> set (filter P xs)" using assms by simp
  then have "card {x, y} \<le> card (set (filter P xs))" by (intro card_mono) simp_all
  also have "\<dots> \<le> length (filter P xs)" by (rule card_length)
  finally show ?thesis using assms(3) by simp
qed

lemma filter_one: "x \<in> set xs \<Longrightarrow> P x \<Longrightarrow> 1 \<le> length (filter P xs)"
  by (induction xs) auto

text \<open>
  C4, amended. For every personality type: a text that is exactly one phrase of an insult
  entry without the ultra-severe flag scores at most 30; a text made of two such phrases
  from two different entries scores at most 10; and when \<open>hasUltraSevere\<close> is false and
  the insult count is at least 1, the score is at most
  \<open>max(0, 30 - (directInsultCount - 1) * 20)\<close>, so that it is 0 from three counted
  insults on. The count is of entries, not of phrases.
\<close>

theorem insult_caps:
  "(di \<in> set DIRECT_INSULTS \<and> \<not> ultraSevere di \<and> p \<in> set (patterns di) \<longrightarrow>
      score (analyzeLocal p targetMbti) \<le> 30)
   \<and> (di1 \<in> set DIRECT_INSULTS \<and> \<not> ultraSevere di1 \<and> p1 \<in> set (patterns di1)
       \<and> di2 \<in> set DIRECT_INSULTS \<and> \<not> ultraSevere di2 \<and> p2 \<in> set (patterns di2)
       \<and> di1 \<noteq> di2 \<longrightarrow>
      score (analyzeLocal (p1 @ p2) targetMbti) \<le> 10)
   \<and> (\<not> hasUltraSevere (detect (normalizeText text) targetMbti)
       \<and> 1 \<le> directInsultCount (detect (normalizeText text) targetMbti) \<longrightarrow>
      score (analyzeLocal text targetMbti)
        \<le> max 0 (30 - (real (directInsultCount (detect (normalizeText text) targetMbti)) - 1) * 20)
      \<and> (3 \<le> directInsultCount (detect (normalizeText text) targetMbti) \<longrightarrow>
           score (analyzeLocal text targetMbti) = 0))"
proof (intro conjI impI)
  assume a: "di \<in> set DIRECT_INSULTS \<and> \<not> ultraSevere di \<and> p \<in> set (patterns di)"
  then have di: "di \<in> set DIRECT_INSULTS" and p: "p \<in> set (patterns di)" by simp_all
  have n: "normalizeText p = p" and iu: "0x8A00 \<notin> set p"
    using insult_phrase_facts [OF di p] by simp_all
  have "includesStr p p" using includesStr_appendI [of "[]" p "[]"] by simp
  then have "insultHit p di" using p iu by (intro insultHit_unquoted [of p di p])
  with di have "1 \<le> length (filter (insultHit p) DIRECT_INSULTS)" by (rule filter_one)
  then have "1 \<le> directInsultCount (detect p targetMbti)" by (simp only: detect_insults)
  from finalScore_count [OF this] show "score (analyzeLocal p targetMbti) \<le> 30"
    unfolding score_analyzeLocal n by simp
next
  assume a: "di1 \<in> set DIRECT_INSULTS \<and> \<not> ultraSevere di1 \<and> p1 \<in> set (patterns di1)
       \<and> di2 \<in> set DIRECT_INSULTS \<and> \<not> ultraSevere di2 \<and> p2 \<in> set (patterns di2)
       \<and> di1 \<noteq> di2"
  then have di: "di1 \<in> set DIRECT_INSULTS" "di2 \<in> set DIRECT_INSULTS" "di1 \<noteq> di2"
    and p: "p1 \<in> set (patterns di1)" "p2 \<in> set (patterns di2)" by simp_all
  have n: "normalizeText (p1 @ p2) = p1 @ p2"
    using insult_phrase_facts(1) [OF di(1) p(1)] insult_phrase_facts(1) [OF di(2) p(2)]
    by (simp add: normalizeText_append)
  have iu: "0x8A00 \<notin> set (p1 @ p2)"
    using insult_phrase_facts(2) [OF di(1) p(1)] insult_phrase_facts(2) [OF di(2) p(2)]
    by simp
  have "includesStr (p1 @ p2) p1" using includesStr_appendI [of "[]" p1 p2] by simp
  then have h1: "insultHit (p1 @ p2) di1" using p(1) iu by (intro insultHit_unquoted [of p1 di1])
  have "includesStr (p1 @ p2) p2" using includesStr_appendI [of p1 p2 "[]"] by simp
  then have h2: "insultHit (p1 @ p2) di2" using p(2) iu by (intro insultHit_unquoted [of p2 di2])
  have "2 \<le> length (filter (insultHit (p1 @ p2)) DIRECT_INSULTS)"
    using di h1 h2 by (rule filter_two)
  then have "2 \<le> directInsultCount (detect (p1 @ p2) targetMbti)"
    by (simp only: detect_insults)
  from finalScore_count [OF this] show "score (analyzeLocal (p1 @ p2) targetMbti) \<le> 10"
    unfolding score_analyzeLocal n by simp
next
  assume a: "\<not> hasUltraSevere (detect (normalizeText text) targetMbti)
       \<and> 1 \<le> directInsultCount (detect (normalizeText text) targetMbti)"
  then show "score (analyzeLocal text targetMbti)
        \<le> max 0 (30 - (real (directInsultCount (detect (normalizeText text) targetMbti)) - 1) * 20)"
    unfolding score_analyzeLocal by (intro finalScore_cap) simp_all
  then show "score (analyzeLocal text targetMbti) = 0"
    if "3 \<le> directInsultCount (detect (normalizeText text) targetMbti)"
    using that score_range_all [of "text" targetMbti] by (simp add: max_def split: if_splits)
qed

lemma pow10_le: "Math_pow 10 1.3 \<le> 20"
  by (rule Math_pow_le) simp_all

text \<open>
  The claim C4 as stated fails for two insults of one entry: the text \<open>baka-baka\<close> in
  katakana and kanji (30D0 30AB 99AC 9E7F) holds two phrases of the first entry and
  nothing else, counts as one insult and scores 30.
\<close>

theorem same_group_insults_score_30:
  "[0x30D0, 0x30AB] \<in> set (patterns (hd DIRECT_INSULTS))
   \<and> [0x99AC, 0x9E7F] \<in> set (patterns (hd DIRECT_INSULTS))
   \<and> \<not> ultraSevere (hd DIRECT_INSULTS)
   \<and> score (analyzeLocal ([0x30D0, 0x30AB] @ [0x99AC, 0x9E7F]) [0x49, 0x4E, 0x46, 0x50]) = 30"
proof -
  let ?t = "[0x30D0, 0x30AB, 0x99AC, 0x9E7F] :: jsstring"
  let ?st = "\<lparr>found = [\<lparr>keyword = [0x30D0, 0x30AB], mbtiTypes = [[0x49, 0x4E, 0x46, 0x50]],
                          category = direct_insult, damage = 10\<rparr>],
              categoryBaseDamage = [(direct_insult, 10)],
              categoryMbtiDamage = [(direct_insult, 10)],
              directInsultCount = 1, hasUltraSevere = False\<rparr>"
  have 1: "[0x30D0, 0x30AB] \<in> set (patterns (hd DIRECT_INSULTS))" by code_simp
  have 2: "[0x99AC, 0x9E7F] \<in> set (patterns (hd DIRECT_INSULTS))" by code_simp
  have 3: "\<not> ultraSevere (hd DIRECT_INSULTS)" by code_simp
  have n: "normalizeText ?t = ?t" by code_simp
  have d: "detect ?t [0x49, 0x4E, 0x46, 0x50] = ?st" by code_simp
  have t: "toneCorrection ?t ?t = 0" by code_simp
  have p: "pressureCorrection ?t ?st = 3" by code_simp
  have s: "score (analyzeLocal ?t [0x49, 0x4E, 0x46, 0x50]) = finalScore ?st 0 3"
    by (simp only: score_analyzeLocal n d t p)
  have b: "of_int 57 \<le> scoreOf 10 0 3"
    using pow10_le by (rule scoreOf_ge) simp_all
  have "finalScore ?st 0 3 = baseOnlyScore ?st 0 3"
    by (rule finalScore_agnostic) simp
  also have "\<dots> = 30"
    using b by (simp add: baseOnlyScore_def totalDamage_def)
  finally show ?thesis using 1 2 3 s by simp
qed

theorem insult_caps_witness:
  "hd DIRECT_INSULTS \<in> set DIRECT_INSULTS \<and> \<not> ultraSevere (hd DIRECT_INSULTS)
   \<and> [0x30D0, 0x30AB] \<in> set (patterns (hd DIRECT_INSULTS))
   \<and> hd (tl DIRECT_INSULTS) \<in> set DIRECT_INSULTS \<and> \<not> ultraSevere (hd (tl DIRECT_INSULTS))
   \<and> [0x30A2, 0x30DB] \<in> set (patterns (hd (tl DIRECT_INSULTS)))
   \<and> hd DIRECT_INSULTS \<noteq> hd (tl DIRECT_INSULTS)
   \<and> \<not> hasUltraSevere (detect (normalizeText [0x30D0, 0x30AB, 0x30A2, 0x30DB, 0x7121, 0x80FD])
           [0x49, 0x4E, 0x46, 0x50])
   \<and> directInsultCount (detect (normalizeText [0x30D0, 0x30AB, 0x30A2, 0x30DB, 0x7121, 0x80FD])
           [0x49, 0x4E, 0x46, 0x50]) = 3
   \<and> score (analyzeLocal [0x30D0, 0x30AB] [0x49, 0x4E, 0x46, 0x50]) \<le> 30
   \<and> score (analyzeLocal ([0x30D0, 0x30AB] @ [0x30A2, 0x30DB]) [0x49, 0x4E, 0x46, 0x50]) \<le> 10
   \<and> score (analyzeLocal [0x30D0, 0x30AB, 0x30A2, 0x30DB, 0x7121, 0x80FD] [0x49, 0x4E, 0x46, 0x50]) = 0"
proof -
  let ?t3 = "[0x30D0, 0x30AB, 0x30A2, 0x30DB, 0x7121, 0x80FD] :: jsstring"
  have 1: "hd DIRECT_INSULTS \<in> set DIRECT_INSULTS" by code_simp
  have 2: "\<not> ultraSevere (hd DIRECT_INSULTS)" by code_simp
  have 3: "[0x30D0, 0x30AB] \<in> set (patterns (hd DIRECT_INSULTS))" by code_simp
  have 4: "hd (tl DIRECT_INSULTS) \<in> set DIRECT_INSULTS" by code_simp
  have 5: "\<not> ultraSevere (hd (tl DIRECT_INSULTS))" by code_simp
  have 6: "[0x30A2, 0x30DB] \<in> set (patterns (hd (tl DIRECT_INSULTS)))" by code_simp
  have 7: "hd DIRECT_INSULTS \<noteq> hd (tl DIRECT_INSULTS)" by code_simp
  have 8: "\<not> hasUltraSevere (detect (normalizeText ?t3) [0x49, 0x4E, 0x46, 0x50])" by code_simp
  have 9: "directInsultCount (detect (normalizeText ?t3) [0x49, 0x4E, 0x46, 0x50]) = 3" by code_simp
  from insult_caps [of "hd DIRECT_INSULTS" "[0x30D0, 0x30AB]" "[0x49, 0x4E, 0x46, 0x50]"
      "hd DIRECT_INSULTS" "[0x30D0, 0x30AB]" "hd (tl DIRECT_INSULTS)" "[0x30A2, 0x30DB]" ?t3]
    1 2 3 4 5 6 7 8 9
  show ?thesis by simp
qed

section \<open>Appending to a text: matches\<close>












section \<open>Appending an insult phrase: tone and pressure\<close>







section \<open>The score falls when damage and corrections grow\<close>










section \<open>Appending an insult phrase: the detection\<close>




























section \<open>Texts on which an appended insult raises the score\<close>

lemma score_eval:
  assumes "normalizeText t = n" "detect n m = st" "toneCorrection t n = a"
    "pressureCorrection n st = b"
  shows "score (analyzeLocal t m) = finalScore st a b"
  by (simp add: score_analyzeLocal assms)

lemma finalScore_insults_only:
  assumes "categoryBaseDamage st = [(direct_insult, d)]"
    "categoryMbtiDamage st = [(direct_insult, d)]"
    "\<not> hasUltraSevere st" "0 < directInsultCount st"
  shows "finalScore st a b = min (scoreOf d a b) (max 0 (30 - (real (directInsultCount st) - 1) * 20))"
proof -
  have "finalScore st a b = baseOnlyScore st a b"
    by (rule finalScore_agnostic) (simp add: assms)
  then show ?thesis by (simp add: baseOnlyScore_def assms totalDamage_def)
qed

lemma pow10_ge: "19 \<le> Math_pow 10 1.3"
  by (rule Math_pow_ge) simp_all

lemma pow20_ge: "49 \<le> Math_pow 20 1.3"
  by (rule Math_pow_ge) simp_all

lemma pow20_le: "Math_pow 20 1.3 \<le> 99 / 2"
  by (rule Math_pow_le) (simp_all add: power_divide)


text \<open>Two more texts, for the conditions (1) and (3) of the amended claim: a short text
  loses its penalty, and a command ending is no longer at the end of the text.\<close>

lemma short_text_not_monotone:
  "[0x99AC, 0x9E7F] \<in> set (allPhrases DIRECT_INSULTS)
   \<and> score (analyzeLocal [0x30D0, 0x30AB, 0x30A2, 0x30DB] [0x49, 0x4E, 0x46, 0x50]) = 0
   \<and> 1 \<le> score (analyzeLocal ([0x30D0, 0x30AB, 0x30A2, 0x30DB] @ [0x99AC, 0x9E7F])
            [0x49, 0x4E, 0x46, 0x50])"
proof -
  let ?t = "[0x30D0, 0x30AB, 0x30A2, 0x30DB] :: jsstring"
  let ?tp = "[0x30D0, 0x30AB, 0x30A2, 0x30DB, 0x99AC, 0x9E7F] :: jsstring"
  let ?m = "[0x49, 0x4E, 0x46, 0x50] :: jsstring"
  let ?st = "\<lparr>found = [\<lparr>keyword = [0x30D0, 0x30AB], mbtiTypes = [?m],
                          category = direct_insult, damage = 10\<rparr>,
                       \<lparr>keyword = [0x30A2, 0x30DB], mbtiTypes = [?m],
                          category = direct_insult, damage = 10\<rparr>],
              categoryBaseDamage = [(direct_insult, 20)],
              categoryMbtiDamage = [(direct_insult, 20)],
              directInsultCount = 2, hasUltraSevere = False\<rparr>"
  have 1: "[0x99AC, 0x9E7F] \<in> set (allPhrases DIRECT_INSULTS)" by code_simp
  have n: "normalizeText ?t = ?t" by code_simp
  have d: "detect ?t ?m = ?st" by code_simp
  have t: "toneCorrection ?t ?t = 0" by code_simp
  have p: "pressureCorrection ?t ?st = 3" by code_simp
  have b: "scoreOf 20 0 3 \<le> of_int 0"
    using pow20_ge by (rule scoreOf_le) simp_all
  have "score (analyzeLocal ?t ?m) = finalScore ?st 0 3"
    using n d t p by (rule score_eval)
  also have "\<dots> = min (scoreOf 20 0 3) (max 0 (30 - (real (directInsultCount ?st) - 1) * 20))"
    by (rule finalScore_insults_only) simp_all
  also have "\<dots> = 0" using b scoreOf_range [of 20 0 3] by simp
  finally have 2: "score (analyzeLocal ?t ?m) = 0" .
  have n': "normalizeText ?tp = ?tp" by code_simp
  have d': "detect ?tp ?m = ?st" by code_simp
  have t': "toneCorrection ?tp ?tp = 0" by code_simp
  have p': "pressureCorrection ?tp ?st = 0" by code_simp
  have b': "of_int 1 \<le> scoreOf 20 0 0"
    using pow20_le by (rule scoreOf_ge) simp_all
  have "score (analyzeLocal ?tp ?m) = finalScore ?st 0 0"
    using n' d' t' p' by (rule score_eval)
  also have "\<dots> = min (scoreOf 20 0 0) (max 0 (30 - (real (directInsultCount ?st) - 1) * 20))"
    by (rule finalScore_insults_only) simp_all
  finally have 3: "1 \<le> score (analyzeLocal ?tp ?m)" using b' by simp
  from 1 2 3 show ?thesis by simp
qed

lemma command_ending_not_monotone:
  "[0x30D0, 0x30AB] \<in> set (allPhrases DIRECT_INSULTS)
   \<and> score (analyzeLocal [0x21, 0x21, 0x3F, 0x3F, 0x3F, 0x30D0, 0x30AB, 0x3057, 0x308D]
        [0x49, 0x4E, 0x46, 0x50]) \<le> 22
   \<and> score (analyzeLocal ([0x21, 0x21, 0x3F, 0x3F, 0x3F, 0x30D0, 0x30AB, 0x3057, 0x308D]
        @ [0x30D0, 0x30AB]) [0x49, 0x4E, 0x46, 0x50]) = 30"
proof -
  let ?t = "[0x21, 0x21, 0x3F, 0x3F, 0x3F, 0x30D0, 0x30AB, 0x3057, 0x308D] :: jsstring"
  let ?tp = "[0x21, 0x21, 0x3F, 0x3F, 0x3F, 0x30D0, 0x30AB, 0x3057, 0x308D, 0x30D0, 0x30AB] :: jsstring"
  let ?m = "[0x49, 0x4E, 0x46, 0x50] :: jsstring"
  let ?st = "\<lparr>found = [\<lparr>keyword = [0x30D0, 0x30AB], mbtiTypes = [?m],
                          category = direct_insult, damage = 10\<rparr>],
              categoryBaseDamage = [(direct_insult, 10)],
              categoryMbtiDamage = [(direct_insult, 10)],
              directInsultCount = 1, hasUltraSevere = False\<rparr>"
  have 1: "[0x30D0, 0x30AB] \<in> set (allPhrases DIRECT_INSULTS)" by code_simp
  have n: "normalizeText ?t = ?t" by code_simp
  have d: "detect ?t ?m = ?st" by code_simp
  have t: "toneCorrection ?t ?t = 40" by code_simp
  have p: "pressureCorrection ?t ?st = 0" by code_simp
  have b: "scoreOf 10 40 0 \<le> of_int 22"
    using pow10_ge by (rule scoreOf_le) simp_all
  have "score (analyzeLocal ?t ?m) = finalScore ?st 40 0"
    using n d t p by (rule score_eval)
  also have "\<dots> = min (scoreOf 10 40 0) (max 0 (30 - (real (directInsultCount ?st) - 1) * 20))"
    by (rule finalScore_insults_only) simp_all
  finally have 2: "score (analyzeLocal ?t ?m) \<le> 22" using b by simp
  have n': "normalizeText ?tp = ?tp" by code_simp
  have d': "detect ?tp ?m = ?st" by code_simp
  have t': "toneCorrection ?tp ?tp = 30" by code_simp
  have p': "pressureCorrection ?tp ?st = 0" by code_simp
  have b': "of_int 30 \<le> scoreOf 10 30 0"
    using pow10_le by (rule scoreOf_ge) simp_all
  have "score (analyzeLocal ?tp ?m) = finalScore ?st 30 0"
    using n' d' t' p' by (rule score_eval)
  also have "\<dots> = min (scoreOf 10 30 0) (max 0 (30 - (real (directInsultCount ?st) - 1) * 20))"
    by (rule finalScore_insults_only) simp_all
  also have "\<dots> = 30" using b' by simp
  finally have 3: "score (analyzeLocal ?tp ?m) = 30" .
  from 1 2 3 show ?thesis by simp
qed


lemma pow13_bounds: "139 / 5 \<le> Math_pow 13 1.3" "Math_pow 13 1.3 \<le> 141 / 5"
proof -
  show "139 / 5 \<le> Math_pow 13 1.3" by (rule Math_pow_ge) (simp_all add: power_divide)
  show "Math_pow 13 1.3 \<le> 141 / 5" by (rule Math_pow_le) (simp_all add: power_divide)
qed

lemma pow15_ge: "174 / 5 \<le> Math_pow (77 / 5) 1.3"
  by (rule Math_pow_ge) (simp_all add: power_divide)

text \<open>A text for condition (4): the appended insult completes a phrase that two entries
  share, the second of them is skipped as a repetition, and for the type INTP the
  weighted damage falls.\<close>

lemma repeated_phrase_not_monotone:
  "[0x3066, 0x3081, 0x3048] \<in> set (allPhrases DIRECT_INSULTS)
   \<and> score (analyzeLocal
        [0x21, 0x21, 0x3F, 0x3F, 0x3F, 0x304A, 0x524D, 0x3057, 0x3063, 0x304B, 0x308A, 0x3057,
         0x3066, 0x3061, 0x3083, 0x3093, 0x3068, 0x3057] [0x49, 0x4E, 0x54, 0x50]) \<le> 4
   \<and> 14 \<le> score (analyzeLocal
        ([0x21, 0x21, 0x3F, 0x3F, 0x3F, 0x304A, 0x524D, 0x3057, 0x3063, 0x304B, 0x308A, 0x3057,
          0x3066, 0x3061, 0x3083, 0x3093, 0x3068, 0x3057] @ [0x3066, 0x3081, 0x3048])
        [0x49, 0x4E, 0x54, 0x50])"
proof -
  let ?t = "[0x21, 0x21, 0x3F, 0x3F, 0x3F, 0x304A, 0x524D, 0x3057, 0x3063, 0x304B, 0x308A, 0x3057,
             0x3066, 0x3061, 0x3083, 0x3093, 0x3068, 0x3057] :: jsstring"
  let ?tp = "[0x21, 0x21, 0x3F, 0x3F, 0x3F, 0x304A, 0x524D, 0x3057, 0x3063, 0x304B, 0x308A, 0x3057,
              0x3066, 0x3061, 0x3083, 0x3093, 0x3068, 0x3057, 0x3066, 0x3081, 0x3048] :: jsstring"
  let ?m = "[0x49, 0x4E, 0x54, 0x50] :: jsstring"
  let ?st = "\<lparr>found = [\<lparr>keyword = [0x304A, 0x524D], mbtiTypes = [?m],
                          category = direct_insult, damage = 10\<rparr>,
                       \<lparr>keyword = [0x3057, 0x3063, 0x304B, 0x308A, 0x3057, 0x3066],
                          mbtiTypes = [?m], category = vague_criticism, damage = 27 / 5\<rparr>],
              categoryBaseDamage = [(direct_insult, 10), (vague_criticism, 3)],
              categoryMbtiDamage = [(direct_insult, 10), (vague_criticism, 27 / 5)],
              directInsultCount = 1, hasUltraSevere = False\<rparr>"
  let ?st' = "\<lparr>found = [\<lparr>keyword = [0x304A, 0x524D], mbtiTypes = [?m],
                          category = direct_insult, damage = 10\<rparr>,
                       \<lparr>keyword = [0x3061, 0x3083, 0x3093, 0x3068, 0x3057, 0x3066],
                          mbtiTypes = [?m], category = command_soft, damage = 3\<rparr>],
              categoryBaseDamage = [(direct_insult, 10), (command_soft, 3)],
              categoryMbtiDamage = [(direct_insult, 10), (command_soft, 3)],
              directInsultCount = 1, hasUltraSevere = False\<rparr>"
  have 1: "[0x3066, 0x3081, 0x3048] \<in> set (allPhrases DIRECT_INSULTS)" by code_simp
  have n: "normalizeText ?t = ?t" by code_simp
  have d: "detect ?t ?m = ?st" by code_simp
  have t: "toneCorrection ?t ?t = 30" by code_simp
  have p: "pressureCorrection ?t ?st = 0" by code_simp
  have bs: "scoreOf 13 30 0 \<le> of_int 14"
    using pow13_bounds(1) by (rule scoreOf_le) simp_all
  have "scoreOf (77 / 5) 30 0 \<le> of_int 0"
    using pow15_ge by (rule scoreOf_le) simp_all
  then have mr: "scoreOf (77 / 5) 30 0 = 0" using scoreOf_range [of "77 / 5" 30 0] by simp
  have tb: "totalDamage (categoryBaseDamage ?st) = 13" by (simp add: totalDamage_def)
  have tm: "totalDamage (categoryMbtiDamage ?st) = 77 / 5" by (simp add: totalDamage_def)
  have "score (analyzeLocal ?t ?m) = finalScore ?st 30 0"
    using n d t p by (rule score_eval)
  also have "\<dots> \<le> max 0 (min 100 (max (scoreOf 13 30 0 - 10)
                      (min (scoreOf 13 30 0 + 10) (scoreOf (77 / 5) 30 0))))"
    unfolding finalScore_def Let_def tb tm by simp
  also have "\<dots> \<le> 4" using bs scoreOf_range [of 13 30 0] unfolding mr by simp
  finally have 2: "score (analyzeLocal ?t ?m) \<le> 4" .
  have n': "normalizeText ?tp = ?tp" by code_simp
  have d': "detect ?tp ?m = ?st'" by code_simp
  have t': "toneCorrection ?tp ?tp = 30" by code_simp
  have p': "pressureCorrection ?tp ?st' = 0" by code_simp
  have bs': "of_int 14 \<le> scoreOf 13 30 0"
    using pow13_bounds(2) by (rule scoreOf_ge) simp_all
  have "score (analyzeLocal ?tp ?m) = finalScore ?st' 30 0"
    using n' d' t' p' by (rule score_eval)
  also have "\<dots> = baseOnlyScore ?st' 30 0"
    by (rule finalScore_agnostic) simp
  also have "\<dots> = min (scoreOf 13 30 0) 30"
    by (simp add: baseOnlyScore_def totalDamage_def)
  finally have 3: "14 \<le> score (analyzeLocal ?tp ?m)" using bs' by simp
  from 1 2 3 show ?thesis by simp
qed

end
